theory Spec2Isabelle
  imports Complex_Main "HOL-Library.Sublist"
begin

section \<open>Graph construction for the deterministic policy gradient learners of rlcomp/dpg.py\<close>

text \<open>
  The module \<^verbatim>\<open>dpg.py\<close> builds a TensorFlow computation graph. A tensor handle of the
  program is a node of that graph: it is modelled as a term of the datatype \<open>tensor\<close>, one
  constructor for every TensorFlow operation that the module applies. Building the graph
  mutates the default graph (variables, placeholders, random sources, summaries); that
  state is the record \<open>graph\<close>, passed through every constructor call. A Python exception
  is a value of type \<open>error\<close>; the graph built up to the raise is kept, as the default
  graph keeps it.
\<close>

subsection \<open>Errors\<close>

datatype error =
    ValueError string
  | AssertionError string
  | NotImplementedError string
  | IndexError string
  | TypeError string

subsection \<open>Tensors\<close>

datatype tensor =
    Placeholder nat string "nat option list"
  | Variable string
  | Const real
  | Shape tensor
  | Index tensor nat
  | Pack "tensor list"
  | Zeros tensor
  | RandomNormal nat tensor real real
  | Add tensor tensor
  | Sub tensor tensor
  | Mul tensor tensor
  | Div tensor tensor
  | Neg tensor
  | Square tensor
  | Abs tensor
  | Tanh tensor
  | Softmax tensor
  | MatMul tensor tensor
  | Concat nat "tensor list"
  | ExpandDims tensor nat
  | Squeeze tensor
  | ReduceMean tensor "nat option"
  | ReduceSum tensor "nat option"
  | ReduceMax tensor "nat option"
  | AddN "tensor list"
  | SplitOut nat nat tensor nat
  | BatchNorm tensor tensor tensor tensor tensor real bool
  | StopGradient tensor
  | Ext string "tensor list"

text \<open>
  \<open>Placeholder i n shape\<close> and \<open>RandomNormal i shape mean stddev\<close> carry the identity \<open>i\<close>
  of the node: two placeholders, or two random sources, created by two calls are two
  nodes even when their arguments agree. \<open>Ext\<close> stands for a computation built inside a
  library cell (a GRU step, the hidden nonlinearity of the layer library); its arguments
  are the tensors and variables it reads. A Python value that is either one tensor or a
  list of tensors (\<^verbatim>\<open>isinstance(actions, list)\<close>) is a \<open>tensors\<close>.
\<close>

datatype tensors = One tensor | Many "tensor list"

datatype update_op =
    Assign string tensor
  | Group "update_op list"

subsection \<open>The default graph and variable scopes\<close>

record graph =
  variables :: "string list"
  var_store :: "string list"
  next_id :: nat
  summaries :: "(string \<times> tensor) list"

text \<open>
  \<open>variables\<close> is \<^verbatim>\<open>tf.all_variables()\<close>: the \<^verbatim>\<open>name\<close> of every variable, in creation
  order. \<open>var_store\<close> holds the scoped names registered by \<^verbatim>\<open>tf.get_variable\<close>.
  \<open>next_id\<close> counts the placeholders and random sources created so far.
\<close>

record vscope =
  vs_name :: string
  vs_reuse :: bool

record mdp =
  state_dim :: nat
  action_dim :: nat

record model_spec =
  policy_dims :: "nat list"
  critic_dims :: "nat list"

type_synonym 'a build = "graph \<Rightarrow> (error + 'a) \<times> graph"

definition ret :: "'a \<Rightarrow> 'a build" where
  "ret x g = (Inr x, g)"

definition raise :: "error \<Rightarrow> 'a build" where
  "raise e g = (Inl e, g)"

definition bind :: "'a build \<Rightarrow> ('a \<Rightarrow> 'b build) \<Rightarrow> 'b build" where
  "bind m f g = (case m g of (Inl e, g') \<Rightarrow> (Inl e, g') | (Inr x, g') \<Rightarrow> f x g')"

primrec mapM :: "('a \<Rightarrow> 'b build) \<Rightarrow> 'a list \<Rightarrow> 'b list build" where
  "mapM f [] = ret []"
| "mapM f (x # xs) = bind (f x) (\<lambda>y. bind (mapM f xs) (\<lambda>ys. ret (y # ys)))"

definition root_scope :: vscope where
  "root_scope = \<lparr>vs_name = [], vs_reuse = False\<rparr>"

text \<open>
  \<^verbatim>\<open>with tf.variable_scope(name, reuse=reuse)\<close>: the scope name is extended, and reuse is
  inherited by sub-scopes (\<^verbatim>\<open>reuse or old.reuse\<close>). The initializer of the scope fixes
  initial values only, which the model does not hold.
\<close>

definition variable_scope :: "vscope \<Rightarrow> string \<Rightarrow> bool option \<Rightarrow> vscope" where
  "variable_scope sc n reuse =
     \<lparr>vs_name = (if vs_name sc = [] then n else vs_name sc @ ''/'' @ n),
      vs_reuse = (reuse = Some True \<or> vs_reuse sc)\<rparr>"

definition reuse_variables :: "vscope \<Rightarrow> vscope" where
  "reuse_variables sc = sc\<lparr>vs_reuse := True\<rparr>"

definition scoped :: "vscope \<Rightarrow> string \<Rightarrow> string" where
  "scoped sc n = (if vs_name sc = [] then n else vs_name sc @ ''/'' @ n)"

text \<open>
  \<^verbatim>\<open>tf.get_variable\<close>: under reuse the variable must exist, otherwise it must not.
\<close>

definition get_variable :: "vscope \<Rightarrow> string \<Rightarrow> tensor build" where
  "get_variable sc n g =
     (let full = scoped sc n in
      if vs_reuse sc then
        (if full \<in> set (var_store g) then (Inr (Variable (full @ '':0'')), g)
         else (Inl (ValueError ''Under-sharing''), g))
      else if full \<in> set (var_store g) then (Inl (ValueError ''Over-sharing''), g)
      else (Inr (Variable (full @ '':0'')),
            g\<lparr>variables := variables g @ [full @ '':0''],
              var_store := var_store g @ [full]\<rparr>))"

text \<open>\<^verbatim>\<open>tf.Variable(init, name=n)\<close> inside the scope: a new variable outside the store.\<close>

definition new_variable :: "vscope \<Rightarrow> string \<Rightarrow> tensor build" where
  "new_variable sc n g =
     (Inr (Variable (scoped sc n @ '':0'')),
      g\<lparr>variables := variables g @ [scoped sc n @ '':0'']\<rparr>)"

definition placeholder :: "nat option list \<Rightarrow> string \<Rightarrow> tensor build" where
  "placeholder shape n g =
     (Inr (Placeholder (next_id g) n shape), g\<lparr>next_id := Suc (next_id g)\<rparr>)"

definition random_normal :: "tensor \<Rightarrow> real \<Rightarrow> real \<Rightarrow> tensor build" where
  "random_normal shape mean stddev g =
     (Inr (RandomNormal (next_id g) shape mean stddev), g\<lparr>next_id := Suc (next_id g)\<rparr>)"

definition scalar_summary :: "string \<Rightarrow> tensor \<Rightarrow> unit build" where
  "scalar_summary tag t g = (Inr (), g\<lparr>summaries := summaries g @ [(tag, t)]\<rparr>)"

definition all_variables :: "string list build" where
  "all_variables g = (Inr (variables g), g)"

subsection \<open>Decimal numerals in names\<close>

definition digit_char :: "nat \<Rightarrow> char" where
  "digit_char d = char_of (48 + d)"

function str_nat :: "nat \<Rightarrow> string" where
  "str_nat n = (if n < 10 then [digit_char n] else str_nat (n div 10) @ [digit_char (n mod 10)])"
  by pat_completeness auto
termination
  by (relation "measure id") auto

declare str_nat.simps [simp del]

subsection \<open>The layer library\<close>

text \<open>
  Modelled from the spec: \<^verbatim>\<open>util.mlp\<close> is not among the sources. The spec gives it as a
  feedforward-stack builder taking input dimension, output dimension, hidden-width
  sequence, bias-at-output flag and an optional tracking scope; every layer is fully
  connected, a tracked layer is a separately named parameter of the same architecture.
  Layer \<open>i\<close> owns a weight \<open>W<i>\<close> and, unless it is the output layer of a stack without
  output bias, a bias \<open>b<i>\<close>, both obtained from the variable store of the current scope.
  The hidden nonlinearity, which the spec does not name, is the node \<open>Ext ''f''\<close>.
\<close>

fun mlp_loop :: "vscope \<Rightarrow> bool \<Rightarrow> nat \<Rightarrow> (nat \<times> nat) list \<Rightarrow> tensor \<Rightarrow> tensor build" where
  "mlp_loop sc bias_output i [] x = ret x"
| "mlp_loop sc bias_output i (st # rest) x =
     bind (get_variable sc (''W'' @ str_nat i)) (\<lambda>W.
     bind (if rest \<noteq> [] \<or> bias_output
           then bind (get_variable sc (''b'' @ str_nat i)) (\<lambda>b. ret (Add (MatMul x W) b))
           else ret (MatMul x W)) (\<lambda>x'.
     mlp_loop sc bias_output (Suc i) rest (if rest \<noteq> [] then Ext ''f'' [x'] else x')))"

definition mlp ::
  "vscope \<Rightarrow> tensor \<Rightarrow> nat \<Rightarrow> nat \<Rightarrow> nat list \<Rightarrow> bool \<Rightarrow> string option \<Rightarrow> tensor build" where
  "mlp sc inp inp_dim outp_dim hidden bias_output track_scope =
     (let layer_dims = [inp_dim] @ hidden @ [outp_dim]
      in mlp_loop sc bias_output 0 (zip layer_dims (tl layer_dims)) inp)"

text \<open>
  Modelled from the spec: \<^verbatim>\<open>util.track_model_updates\<close> is not among the sources. Given
  the live scope, the tracked scope and the rate, it pairs every live parameter with the
  tracked parameter of the same name after the scope prefix, fails when there is none,
  and returns one operation doing \<open>tracked \<leftarrow> tracked + tau * (live - tracked)\<close> for all.
\<close>

definition strip_scope :: "string \<Rightarrow> string \<Rightarrow> string option" where
  "strip_scope sc v = (if prefix (sc @ ''/'') v then Some (drop (length sc + 1) v) else None)"

fun track_pairs :: "string list \<Rightarrow> string \<Rightarrow> string \<Rightarrow> tensor \<Rightarrow> string list \<Rightarrow> error + update_op list" where
  "track_pairs vs src dst t [] = Inr []"
| "track_pairs vs src dst t (v # rest) =
     (case strip_scope src v of
        None \<Rightarrow> track_pairs vs src dst t rest
      | Some leaf \<Rightarrow>
          if dst @ ''/'' @ leaf \<in> set vs then
            (case track_pairs vs src dst t rest of
               Inl e \<Rightarrow> Inl e
             | Inr ops \<Rightarrow>
                 Inr (Assign (dst @ ''/'' @ leaf)
                        (Add (Variable (dst @ ''/'' @ leaf))
                             (Mul t (Sub (Variable v) (Variable (dst @ ''/'' @ leaf))))) # ops))
          else Inl (ValueError ''no tracked parameter''))"

definition track_model_updates :: "string \<Rightarrow> string \<Rightarrow> tensor \<Rightarrow> update_op build" where
  "track_model_updates src dst t g =
     (case track_pairs (variables g) src dst t (variables g) of
        Inl e \<Rightarrow> (Inl e, g)
      | Inr ops \<Rightarrow> (Inr (Group ops), g))"

subsection \<open>Policy, noise and critic\<close>

definition policy_model ::
  "vscope \<Rightarrow> tensor \<Rightarrow> mdp \<Rightarrow> model_spec \<Rightarrow> string \<Rightarrow> bool option \<Rightarrow> string option \<Rightarrow> tensor build" where
  "policy_model sc inp m spec n reuse track_scope =
     mlp (variable_scope sc n reuse) inp (state_dim m) (action_dim m)
         (policy_dims spec) False track_scope"

fun noise_gaussian :: "tensors \<Rightarrow> tensors \<Rightarrow> real \<Rightarrow> tensors build" where
  "noise_gaussian inp (Many actions) stddev =
     bind (mapM (\<lambda>actions_t. bind (random_normal (Shape actions_t) 0 stddev)
                               (\<lambda>noise. ret (Add actions_t noise))) actions)
          (\<lambda>res. ret (Many res))"
| "noise_gaussian inp (One actions) stddev =
     bind (random_normal (Shape actions) 0 stddev) (\<lambda>noise. ret (One (Add actions noise)))"

definition critic_net :: "tensor \<Rightarrow> tensor" where
  "critic_net output = Squeeze (Tanh output)"

definition critic_model ::
  "vscope \<Rightarrow> tensor \<Rightarrow> tensor \<Rightarrow> mdp \<Rightarrow> model_spec \<Rightarrow> string \<Rightarrow> bool option \<Rightarrow> string option
     \<Rightarrow> tensor build" where
  "critic_model sc inp actions m spec n reuse track_scope =
     bind (mlp (variable_scope sc n reuse) (Concat 1 [inp, actions])
               (state_dim m + action_dim m) 1 (critic_dims spec) True track_scope)
          (\<lambda>output. ret (critic_net output))"

text \<open>A list where the library expects one tensor is a type error at the call.\<close>

definition as_tensor :: "tensors \<Rightarrow> tensor build" where
  "as_tensor ts = (case ts of One t \<Rightarrow> ret t | Many _ \<Rightarrow> raise (TypeError ''list of tensors''))"

subsection \<open>The base learner: class DPG\<close>

type_synonym noiser = "tensors \<Rightarrow> tensors \<Rightarrow> tensors build"

record dpg =
  noiser_of :: noiser
  mdp_spec :: mdp
  spec_of :: model_spec
  inputs :: tensor
  q_targets :: tensor
  tau :: tensor
  name_of :: string
  a_pred :: tensor
  a_explore :: tensors
  critic_on :: tensor
  critic_off :: tensor
  a_pred_track :: tensor
  critic_on_track :: tensor
  policy_params :: "string list"
  critic_params :: "string list"
  policy_objective :: tensor
  critic_objective :: tensor
  track_update :: "update_op option"

text \<open>\<^verbatim>\<open>x or tf.placeholder(...)\<close>: the placeholder is created only when \<open>x\<close> is \<open>None\<close>.\<close>

definition or_placeholder :: "tensor option \<Rightarrow> nat option list \<Rightarrow> string \<Rightarrow> tensor build" where
  "or_placeholder x shape n = (case x of Some t \<Rightarrow> ret t | None \<Rightarrow> placeholder shape n)"

definition DPG_make_params :: "unit build" where
  "DPG_make_params = ret ()"

definition DPG_make_inputs ::
  "mdp \<Rightarrow> tensor option \<Rightarrow> tensor option \<Rightarrow> tensor option \<Rightarrow> (tensor \<times> tensor \<times> tensor) build" where
  "DPG_make_inputs m inputs0 q_targets0 tau0 =
     bind (or_placeholder inputs0 [None, Some (state_dim m)] ''inputs'') (\<lambda>inp.
     bind (or_placeholder q_targets0 [None] ''q_targets'') (\<lambda>q.
     bind (or_placeholder tau0 [Some 1] ''tau'') (\<lambda>t.
     ret (inp, q, t))))"

definition DPG_make_graph ::
  "vscope \<Rightarrow> string \<Rightarrow> noiser \<Rightarrow> mdp \<Rightarrow> model_spec \<Rightarrow> tensor
     \<Rightarrow> (tensor \<times> tensors \<times> tensor \<times> tensor \<times> tensor \<times> tensor) build" where
  "DPG_make_graph sc nm nz m spec inp =
     bind (policy_model sc inp m spec ''policy'' None None) (\<lambda>ap.
     bind (nz (One inp) (One ap)) (\<lambda>ae.
     bind (critic_model sc inp ap m spec ''critic'' None None) (\<lambda>con.
     bind (as_tensor ae) (\<lambda>ae_t.
     bind (critic_model sc inp ae_t m spec ''critic'' (Some True) None) (\<lambda>coff.
     bind (policy_model sc inp m spec ''policy_track'' None (Some (nm @ ''/policy'')))
          (\<lambda>apt.
     bind (critic_model sc inp ap m spec ''critic_track'' None (Some (nm @ ''/critic'')))
          (\<lambda>cont.
     ret (ap, ae, con, coff, apt, cont))))))))"

definition DPG_make_objectives ::
  "tensor \<Rightarrow> tensor \<Rightarrow> tensor \<Rightarrow> (string list \<times> string list \<times> tensor \<times> tensor) build" where
  "DPG_make_objectives con coff q =
     bind all_variables (\<lambda>vs1.
     bind all_variables (\<lambda>vs2.
     let pp = filter (sublist ''policy/'') vs1;
         cp = filter (sublist ''critic/'') vs2;
         po = Neg (ReduceMean con None);
         q_errors = Square (Sub coff q);
         co = ReduceMean q_errors None
     in ret (pp, cp, po, co)))"

definition DPG_make_updates :: "string \<Rightarrow> tensor \<Rightarrow> update_op option build" where
  "DPG_make_updates nm t =
     bind (track_model_updates (nm @ ''/policy'') (nm @ ''/policy_track'') t)
          (\<lambda>policy_track_update.
     bind (track_model_updates (nm @ ''/critic'') (nm @ ''/critic_track'') t)
          (\<lambda>critic_track_update.
     ret (Some (Group [policy_track_update, critic_track_update]))))"

definition gaussian :: "real \<Rightarrow> noiser" where
  "gaussian stddev = (\<lambda>inp actions. noise_gaussian inp actions stddev)"

definition DPG_init ::
  "mdp \<Rightarrow> model_spec \<Rightarrow> tensor option \<Rightarrow> tensor option \<Rightarrow> tensor option \<Rightarrow> noiser option
     \<Rightarrow> string \<Rightarrow> dpg build" where
  "DPG_init m spec inputs0 q_targets0 tau0 noiser0 nm =
     (let nz = (case noiser0 of None \<Rightarrow> gaussian 0.1 | Some f \<Rightarrow> f);
          sc = variable_scope root_scope nm None
      in
      bind DPG_make_params (\<lambda>_.
      bind (DPG_make_inputs m inputs0 q_targets0 tau0) (\<lambda>(inp, q, t).
      bind (DPG_make_graph sc nm nz m spec inp) (\<lambda>(ap, ae, con, coff, apt, cont).
      bind (DPG_make_objectives con coff q) (\<lambda>(pp, cp, po, co).
      bind (DPG_make_updates nm t) (\<lambda>tu.
      ret \<lparr>noiser_of = nz, mdp_spec = m, spec_of = spec, inputs = inp, q_targets = q,
           tau = t, name_of = nm, a_pred = ap, a_explore = ae,
           critic_on = con, critic_off = coff,
           a_pred_track = apt, critic_on_track = cont,
           policy_params = pp, critic_params = cp,
           policy_objective = po, critic_objective = co,
           track_update = tu\<rparr>))))))"

subsection \<open>Library cells and decoders\<close>

text \<open>
  The recurrent cells and decoders come from the TensorFlow library, which is not part
  of the repository. The model keeps what the module depends on: which variables a call
  creates or reuses, under which scope, and which tensors the result reads. A GRU cell
  of \<open>n\<close> units has input and state size \<open>n\<close>, owns a matrix and a bias for its gates
  and for its candidate, and returns its new state as output and as state.
\<close>

definition linear :: "vscope \<Rightarrow> (tensor \<times> tensor) build" where
  "linear sc =
     bind (get_variable (variable_scope sc ''Linear'' None) ''Matrix'') (\<lambda>M.
     bind (get_variable (variable_scope sc ''Linear'' None) ''Bias'') (\<lambda>B.
     ret (M, B)))"

definition GRUCell_call :: "nat \<Rightarrow> vscope \<Rightarrow> tensor \<Rightarrow> tensor \<Rightarrow> (tensor \<times> tensor) build" where
  "GRUCell_call n sc inp state =
     (let s = variable_scope sc ''GRUCell'' None in
      bind (linear (variable_scope s ''Gates'' None)) (\<lambda>(gm, gb).
      bind (linear (variable_scope s ''Candidate'' None)) (\<lambda>(cm, cb).
      ret (Ext ''GRUCell'' [inp, state, gm, gb, cm, cb],
           Ext ''GRUCell'' [inp, state, gm, gb, cm, cb]))))"

type_synonym cell = "vscope \<Rightarrow> tensor \<Rightarrow> tensor \<Rightarrow> (tensor \<times> tensor) build"

type_synonym loop_fn = "tensor \<Rightarrow> nat \<Rightarrow> tensor build"

definition zero_state :: "tensor \<Rightarrow> nat \<Rightarrow> tensor" where
  "zero_state batch_size state_size = Zeros (Pack [batch_size, Const (real state_size)])"

text \<open>
  \<^verbatim>\<open>seq2seq.rnn_decoder\<close>: from the second step on the input is the loop function of the
  previous output, and the variables of the scope are reused.
\<close>

fun rnn_decoder_loop ::
  "cell \<Rightarrow> loop_fn option \<Rightarrow> vscope \<Rightarrow> nat \<Rightarrow> tensor option \<Rightarrow> tensor \<Rightarrow> tensor list
     \<Rightarrow> (tensor list \<times> tensor list) build" where
  "rnn_decoder_loop c lf sc i prev state [] = ret ([], [])"
| "rnn_decoder_loop c lf sc i prev state (inp # rest) =
     bind (case (lf, prev) of
             (Some f, Some p) \<Rightarrow> bind (f p i) (\<lambda>r. ret (StopGradient r))
           | _ \<Rightarrow> ret inp) (\<lambda>inp'.
     bind (c (if 0 < i then reuse_variables sc else sc) inp' state) (\<lambda>(output, new_state).
     bind (rnn_decoder_loop c lf (if 0 < i then reuse_variables sc else sc) (Suc i)
             (if lf \<noteq> None then Some (StopGradient output) else None) new_state rest)
          (\<lambda>(outputs, states).
     ret (output # outputs, new_state # states))))"

definition rnn_decoder ::
  "vscope \<Rightarrow> tensor list \<Rightarrow> tensor \<Rightarrow> cell \<Rightarrow> loop_fn option
     \<Rightarrow> (tensor list \<times> tensor list) build" where
  "rnn_decoder sc decoder_inputs initial_state c lf =
     bind (rnn_decoder_loop c lf (variable_scope sc ''rnn_decoder'' None) 0 None
             initial_state decoder_inputs)
          (\<lambda>(outputs, states). ret (outputs, initial_state # states))"

text \<open>\<^verbatim>\<open>rnn.rnn\<close>: the encoder; it refuses an empty input list.\<close>

fun rnn_loop ::
  "cell \<Rightarrow> vscope \<Rightarrow> nat \<Rightarrow> tensor \<Rightarrow> tensor list \<Rightarrow> (tensor list \<times> tensor list) build" where
  "rnn_loop c sc i state [] = ret ([], [])"
| "rnn_loop c sc i state (inp # rest) =
     bind (c (if 0 < i then reuse_variables sc else sc) inp state) (\<lambda>(output, new_state).
     bind (rnn_loop c (if 0 < i then reuse_variables sc else sc) (Suc i) new_state rest)
          (\<lambda>(outputs, states).
     ret (output # outputs, new_state # states)))"

definition rnn :: "vscope \<Rightarrow> cell \<Rightarrow> nat \<Rightarrow> tensor list \<Rightarrow> string
     \<Rightarrow> (tensor list \<times> tensor list) build" where
  "rnn sc c state_size inps scope =
     (case inps of
        [] \<Rightarrow> raise (ValueError ''inputs must not be empty'')
      | inp0 # _ \<Rightarrow>
          rnn_loop c (variable_scope sc scope None) 0
            (zero_state (Index (Shape inp0) 0) state_size) inps)"

text \<open>
  Modelled from the spec: \<^verbatim>\<open>rlcomp.pointer_network.ptr_net_decoder\<close> is not among the
  sources. The spec gives it as a decoder recurrence that starts from the encoder's final
  hidden state; the output of a step is computed by attention over the encoder memory;
  the loop function of that output is the input of the next step and is retained as
  that step's processed representation. It returns the outputs, the states with the
  initial state first, and the inputs of every step.
\<close>

fun ptr_net_loop ::
  "cell \<Rightarrow> loop_fn \<Rightarrow> tensor \<Rightarrow> vscope \<Rightarrow> nat \<Rightarrow> tensor option \<Rightarrow> tensor \<Rightarrow> tensor list
     \<Rightarrow> (tensor list \<times> tensor list \<times> tensor list) build" where
  "ptr_net_loop c lf attn sc i prev state [] = ret ([], [], [])"
| "ptr_net_loop c lf attn sc i prev state (inp # rest) =
     bind (case prev of Some p \<Rightarrow> lf p i | None \<Rightarrow> ret inp) (\<lambda>inp'.
     bind (c (if 0 < i then reuse_variables sc else sc) inp' state) (\<lambda>(cell_output, new_state).
     bind (ptr_net_loop c lf attn (if 0 < i then reuse_variables sc else sc) (Suc i)
             (Some (Ext ''attention'' [cell_output, attn])) new_state rest)
          (\<lambda>(outputs, states, inps).
     ret (Ext ''attention'' [cell_output, attn] # outputs, new_state # states, inp' # inps))))"

definition ptr_net_decoder ::
  "vscope \<Rightarrow> tensor list \<Rightarrow> tensor \<Rightarrow> tensor \<Rightarrow> cell \<Rightarrow> loop_fn \<Rightarrow> string
     \<Rightarrow> (tensor list \<times> tensor list \<times> tensor list) build" where
  "ptr_net_decoder sc decoder_inputs initial_state attn c lf scope =
     bind (ptr_net_loop c lf attn (variable_scope sc scope None) 0 None
             initial_state decoder_inputs)
          (\<lambda>(outputs, states, inps). ret (outputs, initial_state # states, inps))"

subsection \<open>The recurrent learner: class RecurrentDPG\<close>

text \<open>
  The fields of a \<open>recurrent_dpg\<close> are the attributes of the Python object, prefixed
  with \<open>r_\<close>. \<open>r_track_update\<close> is \<open>None\<close> when the attribute was never set.
\<close>

record recurrent_dpg =
  r_noiser :: noiser
  r_mdp_spec :: mdp
  r_spec :: model_spec
  r_input_dim :: nat
  r_vocab_size :: nat
  r_seq_length :: nat
  r_inputs :: tensor
  r_q_targets :: tensor
  r_tau :: tensor
  r_name :: string
  r_decoder_state_ind :: tensor
  r_decoder_action_ind :: tensor
  r_a_pred :: "tensor list"
  r_decoder_states :: "tensor list"
  r_a_explore :: tensors
  r_critic_on_seq :: "tensor list"
  r_critic_off_seq :: "tensor list"
  r_critic_on :: tensor
  r_critic_off :: tensor
  r_policy_params :: "string list"
  r_critic_params :: "string list"
  r_policy_objective :: tensor
  r_critic_objective :: tensor
  r_track_update :: "update_op option"

text \<open>\<^verbatim>\<open>xs[0]\<close> raises on an empty list.\<close>

definition index0 :: "'a list \<Rightarrow> 'a build" where
  "index0 xs = (case xs of [] \<Rightarrow> raise (IndexError ''list index out of range'') | x # _ \<Rightarrow> ret x)"

definition as_list :: "tensors \<Rightarrow> tensor list build" where
  "as_list ts = (case ts of Many xs \<Rightarrow> ret xs | One _ \<Rightarrow> raise (TypeError ''tensor is not iterable''))"

definition RecurrentDPG_make_inputs ::
  "mdp \<Rightarrow> model_spec \<Rightarrow> nat \<Rightarrow> tensor option \<Rightarrow> tensor option \<Rightarrow> tensor option
     \<Rightarrow> (tensor \<times> tensor \<times> tensor \<times> tensor \<times> tensor) build" where
  "RecurrentDPG_make_inputs m spec idim inputs0 q_targets0 tau0 =
     bind (or_placeholder inputs0 [None, Some idim] ''inputs'') (\<lambda>inp.
     bind (or_placeholder q_targets0 [None] ''q_targets'') (\<lambda>q.
     bind (or_placeholder tau0 [Some 1] ''tau'') (\<lambda>t.
     bind (index0 (policy_dims spec)) (\<lambda>d0.
     bind (placeholder [None, Some d0] ''dec_state_ind'') (\<lambda>dsi.
     bind (placeholder [None, Some (action_dim m)] ''dec_action_ind'') (\<lambda>dai.
     ret (inp, q, t, dsi, dai)))))))"

text \<open>
  \<^verbatim>\<open>PolicyRNNCell.__call__\<close>: the wrapped cell runs in the caller's scope, the policy
  network in the scope named after the class.
\<close>

definition PolicyRNNCell_call :: "cell \<Rightarrow> mdp \<Rightarrow> model_spec \<Rightarrow> cell" where
  "PolicyRNNCell_call c m spec sc inp state =
     bind (c sc inp state) (\<lambda>(output, res_state).
     bind (policy_model (variable_scope sc ''PolicyRNNCell'' None) output m spec
             ''policy'' None None) (\<lambda>actions.
     ret (actions, res_state)))"

definition RecurrentDPG_policy_cell :: "cell \<Rightarrow> mdp \<Rightarrow> model_spec \<Rightarrow> cell" where
  "RecurrentDPG_policy_cell decoder_cell m spec = PolicyRNNCell_call decoder_cell m spec"

definition RecurrentDPG_loop_function :: "loop_fn build" where
  "RecurrentDPG_loop_function = raise (NotImplementedError ''abstract method'')"

fun RecurrentDPG_critic_loop ::
  "vscope \<Rightarrow> mdp \<Rightarrow> model_spec \<Rightarrow> bool option \<Rightarrow> nat \<Rightarrow> (tensor \<times> tensor) list
     \<Rightarrow> tensor list build" where
  "RecurrentDPG_critic_loop sc m spec reuse t [] = ret []"
| "RecurrentDPG_critic_loop sc m spec reuse t ((states_t, actions_t) # rest) =
     bind (critic_model sc states_t actions_t m spec ''critic''
             (if reuse = Some True \<or> 0 < t then Some True else None) None) (\<lambda>score.
     bind (RecurrentDPG_critic_loop sc m spec reuse (Suc t) rest) (\<lambda>scores.
     ret (score # scores)))"

definition RecurrentDPG_critic ::
  "vscope \<Rightarrow> mdp \<Rightarrow> model_spec \<Rightarrow> tensor list \<Rightarrow> tensor list \<Rightarrow> bool option
     \<Rightarrow> tensor list build" where
  "RecurrentDPG_critic sc m spec states_list actions_list reuse =
     RecurrentDPG_critic_loop sc m spec reuse 0 (zip states_list actions_list)"

definition RecurrentDPG_harden_actions :: "'a \<Rightarrow> 'b build" where
  "RecurrentDPG_harden_actions action_list = raise (NotImplementedError ''abstract method'')"

definition RecurrentDPG_make_updates :: "update_op option \<Rightarrow> update_op option build" where
  "RecurrentDPG_make_updates tu = ret tu"

definition RecurrentDPG_make_graph ::
  "vscope \<Rightarrow> loop_fn build \<Rightarrow> noiser \<Rightarrow> mdp \<Rightarrow> model_spec \<Rightarrow> nat \<Rightarrow> nat \<Rightarrow> tensor \<Rightarrow> tensor
     \<Rightarrow> (tensor list \<times> tensor list \<times> tensors \<times> tensor list \<times> tensor list \<times> tensor \<times> tensor) build" where
  "RecurrentDPG_make_graph sc loop_function_method nz m spec idim slen inp dsi =
     bind (index0 (policy_dims spec)) (\<lambda>d0.
     let decoder_cell = RecurrentDPG_policy_cell (GRUCell_call d0) m spec;
         batch_size = Index (Shape inp) 0;
         input_shape = Pack [batch_size, Const (real idim)];
         decoder_inputs = map (\<lambda>_. Zeros input_shape) [0..<slen]
     in
     bind loop_function_method (\<lambda>loop_function.
     let init_state = Zeros (Pack [batch_size, Const (real d0)]) in
     bind (rnn_decoder sc decoder_inputs init_state decoder_cell (Some loop_function))
          (\<lambda>(ap, dstates0).
     let dstates = tl dstates0 in
     bind (nz (One inp) (Many ap)) (\<lambda>ae.
     bind (RecurrentDPG_critic sc m spec dstates ap None) (\<lambda>con_seq.
     bind (as_list ae) (\<lambda>ae_list.
     bind (RecurrentDPG_critic sc m spec dstates ae_list (Some True)) (\<lambda>coff_seq.
     bind (decoder_cell sc inp dsi) (\<lambda>(a_pred_ind, _).
     bind (nz (One inp) (One a_pred_ind)) (\<lambda>a_explore_ind.
     bind (critic_model sc dsi a_pred_ind m spec ''critic'' (Some True) None) (\<lambda>con.
     bind (as_tensor a_explore_ind) (\<lambda>a_explore_ind_t.
     bind (critic_model sc dsi a_explore_ind_t m spec ''critic'' (Some True) None) (\<lambda>coff.
     bind (scalar_summary ''a_pred_ind.mean'' (ReduceMean a_pred_ind None)) (\<lambda>_.
     bind (scalar_summary ''critic_on(a_pred_ind).mean'' (ReduceMean con None)) (\<lambda>_.
     ret (ap, dstates, ae, con_seq, coff_seq, con, coff)))))))))))))))"

definition RecurrentDPG_init ::
  "loop_fn build \<Rightarrow> mdp \<Rightarrow> model_spec \<Rightarrow> nat \<Rightarrow> nat \<Rightarrow> nat
     \<Rightarrow> tensor option \<Rightarrow> tensor option \<Rightarrow> tensor option \<Rightarrow> noiser option \<Rightarrow> string
     \<Rightarrow> recurrent_dpg build" where
  "RecurrentDPG_init loop_function_method m spec idim vsize slen
       inputs0 q_targets0 tau0 noiser0 nm =
     (let nz = (case noiser0 of None \<Rightarrow> gaussian 0.1 | Some f \<Rightarrow> f);
          sc = variable_scope root_scope nm None
      in
      bind DPG_make_params (\<lambda>_.
      bind (RecurrentDPG_make_inputs m spec idim inputs0 q_targets0 tau0)
           (\<lambda>(inp, q, t, dsi, dai).
      bind (RecurrentDPG_make_graph sc loop_function_method nz m spec idim slen inp dsi)
           (\<lambda>(ap, dstates, ae, con_seq, coff_seq, con, coff).
      bind (DPG_make_objectives con coff q) (\<lambda>(pp, cp, po, co).
      bind (RecurrentDPG_make_updates None) (\<lambda>tu.
      ret \<lparr>r_noiser = nz, r_mdp_spec = m, r_spec = spec, r_input_dim = idim,
           r_vocab_size = vsize, r_seq_length = slen, r_inputs = inp, r_q_targets = q,
           r_tau = t, r_name = nm, r_decoder_state_ind = dsi, r_decoder_action_ind = dai,
           r_a_pred = ap, r_decoder_states = dstates, r_a_explore = ae,
           r_critic_on_seq = con_seq, r_critic_off_seq = coff_seq,
           r_critic_on = con, r_critic_off = coff,
           r_policy_params = pp, r_critic_params = cp,
           r_policy_objective = po, r_critic_objective = co,
           r_track_update = tu\<rparr>))))))"

subsection \<open>The pointer-network learner: class PointerNetDPG\<close>

text \<open>
  The fields of a \<open>pointer_dpg\<close> are the attributes of the Python object, prefixed with
  \<open>p_\<close>. The parameter lists hold the names of the variables.
\<close>

record pointer_dpg =
  p_noiser :: noiser
  p_mdp_spec :: mdp
  p_spec :: model_spec
  p_input_dim :: nat
  p_seq_length :: nat
  p_bn_actions :: bool
  p_bn_beta :: "tensor option"
  p_bn_gamma :: "tensor option"
  p_inputs :: "tensor list"
  p_q_targets :: "tensor list"
  p_tau :: tensor
  p_name :: string
  p_encoder_states :: "tensor list"
  p_decoder_inputs :: "tensor list"
  p_decoder_states :: "tensor list"
  p_a_pred :: "tensor list"
  p_a_explore :: tensors
  p_critic_on :: "tensor list"
  p_critic_off :: "tensor list"
  p_policy_params :: "string list"
  p_critic_params :: "string list"
  p_policy_objective :: tensor
  p_critic_objective :: tensor
  p_track_update :: "update_op option"

fun var_name :: "tensor \<Rightarrow> string" where
  "var_name (Variable n) = n"
| "var_name _ = []"

definition py_assert :: "bool \<Rightarrow> string \<Rightarrow> unit build" where
  "py_assert b msg = (if b then ret () else raise (AssertionError msg))"

text \<open>\<^verbatim>\<open>tf.add_n\<close> refuses an empty list.\<close>

definition add_n :: "tensor list \<Rightarrow> tensor build" where
  "add_n xs = (if xs = [] then raise (ValueError ''add_n of no tensor'') else ret (AddN xs))"

definition PointerNetDPG_make_params :: "vscope \<Rightarrow> bool \<Rightarrow> (tensor \<times> tensor) option build" where
  "PointerNetDPG_make_params sc bn_actions =
     (if bn_actions then
        bind (new_variable (variable_scope sc ''bn'' None) ''beta'') (\<lambda>bn_beta.
        bind (new_variable (variable_scope sc ''bn'' None) ''gamma'') (\<lambda>bn_gamma.
        bind (scalar_summary ''bn_beta.mean'' (ReduceMean bn_beta None)) (\<lambda>_.
        bind (scalar_summary ''bn_gamma.mean'' (ReduceMean bn_gamma None)) (\<lambda>_.
        ret (Some (bn_beta, bn_gamma))))))
      else ret None)"

text \<open>\<^verbatim>\<open>if not self.inputs\<close>: \<open>None\<close> and the empty list are both replaced.\<close>

definition PointerNetDPG_make_inputs ::
  "nat \<Rightarrow> nat \<Rightarrow> tensor list option \<Rightarrow> tensor option \<Rightarrow> (tensor list \<times> tensor) build" where
  "PointerNetDPG_make_inputs idim slen inputs0 tau0 =
     bind (if inputs0 = None \<or> inputs0 = Some []
           then mapM (\<lambda>_. placeholder [None, Some idim] ''Placeholder'') [0..<slen]
           else ret (the inputs0)) (\<lambda>inps.
     bind (or_placeholder tau0 [Some 1] ''tau'') (\<lambda>t.
     ret (inps, t)))"

definition PointerNetDPG_make_q_targets :: "nat \<Rightarrow> tensor list option \<Rightarrow> tensor list build" where
  "PointerNetDPG_make_q_targets slen q_targets0 =
     (if q_targets0 = None \<or> q_targets0 = Some []
      then mapM (\<lambda>_. placeholder [None] ''Placeholder'') [0..<slen]
      else ret (the q_targets0))"

definition attention_states :: "tensor list \<Rightarrow> tensor" where
  "attention_states encoder_states = Concat 1 (map (\<lambda>state_t. ExpandDims state_t 1) encoder_states)"

definition loop_fn_body :: "tensor \<Rightarrow> tensor \<Rightarrow> nat \<Rightarrow> tensor" where
  "loop_fn_body attn_states output_t t =
     (let output_t' = Softmax output_t;
          weighted_mems = Mul attn_states (ExpandDims output_t' 2);
          processed = ReduceSum weighted_mems (Some 1)
      in processed)"

definition PointerNetDPG_loop_function :: "tensor list \<Rightarrow> loop_fn build" where
  "PointerNetDPG_loop_function encoder_states =
     (let attn_states = attention_states encoder_states
      in ret (\<lambda>output_t t. ret (loop_fn_body attn_states output_t t)))"

fun PointerNetDPG_critic_loop ::
  "vscope \<Rightarrow> mdp \<Rightarrow> model_spec \<Rightarrow> bool option \<Rightarrow> nat \<Rightarrow> (tensor \<times> tensor) list
     \<Rightarrow> tensor list build" where
  "PointerNetDPG_critic_loop sc m spec reuse t [] = ret []"
| "PointerNetDPG_critic_loop sc m spec reuse t ((states_t, actions_t) # rest) =
     (let critic_input = Concat 1 [states_t, actions_t] in
      bind (critic_model sc states_t actions_t m spec ''critic''
              (if reuse = Some True \<or> 0 < t then Some True else None) None) (\<lambda>score.
      bind (PointerNetDPG_critic_loop sc m spec reuse (Suc t) rest) (\<lambda>scores.
      ret (score # scores))))"

definition PointerNetDPG_critic ::
  "vscope \<Rightarrow> mdp \<Rightarrow> model_spec \<Rightarrow> tensor list \<Rightarrow> tensor list \<Rightarrow> tensor list \<Rightarrow> bool option
     \<Rightarrow> tensor list build" where
  "PointerNetDPG_critic sc m spec decoder_inputs decoder_states actions_lst reuse =
     (let states_lst = map (\<lambda>(inputs_t, states_t). Concat 1 [inputs_t, states_t])
                           (zip decoder_inputs decoder_states)
      in PointerNetDPG_critic_loop sc m spec reuse 0 (zip states_lst actions_lst))"

definition PointerNetDPG_harden_actions :: "'a \<Rightarrow> 'b build" where
  "PointerNetDPG_harden_actions action_list = raise (NotImplementedError ''abstract method'')"

definition PointerNetDPG_make_updates :: "update_op option \<Rightarrow> update_op option build" where
  "PointerNetDPG_make_updates tu = ret tu"

definition batch_normalize ::
  "nat \<Rightarrow> (tensor \<times> tensor) option \<Rightarrow> tensor list \<Rightarrow> tensor list" where
  "batch_normalize slen bn ap =
     (case bn of
        None \<Rightarrow> ap
      | Some (bn_beta, bn_gamma) \<Rightarrow>
          let batch_pred = Concat 0 ap;
              mean = ReduceMean batch_pred (Some 0);
              variance = ReduceMean (Square (Sub batch_pred mean)) (Some 0);
              batch_pred' = ExpandDims (ExpandDims batch_pred 1) 1;
              batch_pred'' = BatchNorm batch_pred' mean variance bn_beta bn_gamma 0.001 True
          in map (SplitOut 0 slen (Squeeze batch_pred'')) [0..<slen])"

definition PointerNetDPG_make_graph ::
  "vscope \<Rightarrow> noiser \<Rightarrow> mdp \<Rightarrow> model_spec \<Rightarrow> nat \<Rightarrow> (tensor \<times> tensor) option \<Rightarrow> tensor list
     \<Rightarrow> tensor list option
     \<Rightarrow> (tensor list \<times> tensor list \<times> tensor list \<times> tensor list \<times> tensors
          \<times> tensor list \<times> tensor list \<times> tensor list) build" where
  "PointerNetDPG_make_graph sc nz m spec slen bn inps q_targets0 =
     bind (index0 (policy_dims spec)) (\<lambda>d0.
     bind (rnn sc (GRUCell_call d0) d0 inps ''encoder'') (\<lambda>(_, encoder_states).
     bind (py_assert (length encoder_states = slen) ''len(self.encoder_states) == self.seq_length'')
          (\<lambda>_.
     let attn_states = attention_states encoder_states;
         decoder_cell = GRUCell_call d0
     in
     bind (index0 inps) (\<lambda>inp0.
     let batch_size = Index (Shape inp0) 0;
         dec_inp_shape = Pack [batch_size, Const (real d0)];
         dec_inp_dummy = Zeros dec_inp_shape;
         dec_inp = replicate slen dec_inp_dummy
     in
     bind (PointerNetDPG_loop_function encoder_states) (\<lambda>loop_function.
     bind (ptr_net_decoder sc dec_inp (last encoder_states) attn_states decoder_cell
             loop_function ''decoder'') (\<lambda>(ap0, dec_states, dec_inputs).
     let dstates = tl dec_states;
         ap = batch_normalize slen bn ap0
     in
     bind (nz (Many inps) (Many ap)) (\<lambda>ae.
     bind (PointerNetDPG_critic sc m spec dec_inputs dstates ap None) (\<lambda>con.
     bind (as_list ae) (\<lambda>ae_list.
     bind (PointerNetDPG_critic sc m spec dec_inputs dstates ae_list (Some True)) (\<lambda>coff.
     bind (PointerNetDPG_make_q_targets slen q_targets0) (\<lambda>q.
     ret (encoder_states, dec_inputs, dstates, ap, ae, con, coff, q))))))))))))"

definition PointerNetDPG_policy_params :: "string list build" where
  "PointerNetDPG_policy_params =
     bind all_variables (\<lambda>vs.
     ret (filter (\<lambda>v. sublist ''encoder/'' v \<or> sublist ''decoder/'' v) vs))"

definition PointerNetDPG_make_objectives ::
  "bool \<Rightarrow> (tensor \<times> tensor) option \<Rightarrow> nat \<Rightarrow> tensor list \<Rightarrow> tensor list \<Rightarrow> tensor list
     \<Rightarrow> tensor list \<Rightarrow> (string list \<times> string list \<times> tensor \<times> tensor) build" where
  "PointerNetDPG_make_objectives bn_actions bn slen ap con coff q =
     bind PointerNetDPG_policy_params (\<lambda>pp0.
     bind all_variables (\<lambda>vs.
     let cp0 = filter (sublist ''critic/'') vs;
         bn_params = (case bn of Some (bn_beta, bn_gamma) \<Rightarrow> [var_name bn_beta, var_name bn_gamma]
                      | None \<Rightarrow> []);
         pp = (if bn_actions then pp0 @ bn_params else pp0);
         cp = (if bn_actions then cp0 @ bn_params else cp0)
     in
     bind (add_n con) (\<lambda>sum_on.
     let mean_critic_over_time = Div sum_on (Const (real slen));
         mean_critic = ReduceMean mean_critic_over_time None;
         po = Neg mean_critic
     in
     bind (scalar_summary ''critic(a_pred).mean'' mean_critic) (\<lambda>_.
     let q_errors = map (\<lambda>(critic_off_t, q_targets_t).
                           ReduceMean (Square (Sub critic_off_t q_targets_t)) None) (zip coff q)
     in
     bind (add_n q_errors) (\<lambda>sum_err.
     let co = Div sum_err (Const (real slen)) in
     bind (scalar_summary ''critic_objective'' co) (\<lambda>_.
     bind (add_n coff) (\<lambda>sum_off.
     bind (scalar_summary ''critic(a_explore).mean''
             (Div (ReduceMean sum_off None) (Const (real slen)))) (\<lambda>_.
     bind (add_n ap) (\<lambda>sum_pred.
     bind (scalar_summary ''a_pred.mean''
             (Div (ReduceMean sum_pred None) (Const (real slen)))) (\<lambda>_.
     bind (scalar_summary ''a_pred.maxabs'' (ReduceMax (Abs (Pack ap)) None)) (\<lambda>_.
     ret (pp, cp, po, co))))))))))))"

definition PointerNetDPG_construct ::
  "mdp \<Rightarrow> model_spec \<Rightarrow> nat \<Rightarrow> nat \<Rightarrow> bool
     \<Rightarrow> tensor list option \<Rightarrow> tensor list option \<Rightarrow> tensor option \<Rightarrow> noiser option \<Rightarrow> string
     \<Rightarrow> pointer_dpg build" where
  "PointerNetDPG_construct m spec idim slen bn_actions inputs0 q_targets0 tau0 noiser0 nm =
     (let nz = (case noiser0 of None \<Rightarrow> gaussian 0.1 | Some f \<Rightarrow> f);
          sc = variable_scope root_scope nm None
      in
      bind (PointerNetDPG_make_params sc bn_actions) (\<lambda>bn.
      bind (PointerNetDPG_make_inputs idim slen inputs0 tau0) (\<lambda>(inps, t).
      bind (PointerNetDPG_make_graph sc nz m spec slen bn inps q_targets0)
           (\<lambda>(enc, dec_inputs, dstates, ap, ae, con, coff, q).
      bind (PointerNetDPG_make_objectives bn_actions bn slen ap con coff q)
           (\<lambda>(pp, cp, po, co).
      bind (PointerNetDPG_make_updates None) (\<lambda>tu.
      ret \<lparr>p_noiser = nz, p_mdp_spec = m, p_spec = spec, p_input_dim = idim,
           p_seq_length = slen, p_bn_actions = bn_actions,
           p_bn_beta = map_option fst bn, p_bn_gamma = map_option snd bn,
           p_inputs = inps, p_q_targets = q, p_tau = t, p_name = nm,
           p_encoder_states = enc, p_decoder_inputs = dec_inputs,
           p_decoder_states = dstates, p_a_pred = ap, p_a_explore = ae,
           p_critic_on = con, p_critic_off = coff,
           p_policy_params = pp, p_critic_params = cp,
           p_policy_objective = po, p_critic_objective = co,
           p_track_update = tu\<rparr>))))))"

text \<open>
  \<^verbatim>\<open>PointerNetDPG.__init__\<close>: the assertion on the dimensions comes before the call of
  the base constructor, which is \<open>PointerNetDPG_construct\<close> with the methods of this class.
\<close>

definition PointerNetDPG_init ::
  "mdp \<Rightarrow> model_spec \<Rightarrow> nat \<Rightarrow> nat \<Rightarrow> bool
     \<Rightarrow> tensor list option \<Rightarrow> tensor list option \<Rightarrow> tensor option \<Rightarrow> noiser option \<Rightarrow> string
     \<Rightarrow> pointer_dpg build" where
  "PointerNetDPG_init m spec idim slen bn_actions inputs0 q_targets0 tau0 noiser0 nm =
     bind (index0 (policy_dims spec)) (\<lambda>d0.
     bind (py_assert (state_dim m = d0 * 2) ''mdp.state_dim == spec.policy_dims[0] * 2'') (\<lambda>_.
     PointerNetDPG_construct m spec idim slen bn_actions inputs0 q_targets0 tau0 noiser0 nm))"

subsection \<open>Helpers for concrete runs\<close>

definition empty_graph :: graph where
  "empty_graph = \<lparr>variables = [], var_store = [], next_id = 0, summaries = []\<rparr>"

definition succeeds :: "(error + 'a) \<times> graph \<Rightarrow> bool" where
  "succeeds r = (case fst r of Inr _ \<Rightarrow> True | Inl _ \<Rightarrow> False)"

subsection \<open>The networks as functions of their inputs\<close>

text \<open>
  \<open>mlp_net\<close> is the tensor that the layer stack computes from its input: the variables
  are named by the scope alone, so two stacks built in the same scope are the same
  function of their inputs. \<open>critic_fn\<close> is the critic of a scope in that sense.
\<close>

fun mlp_net :: "vscope \<Rightarrow> bool \<Rightarrow> nat \<Rightarrow> (nat \<times> nat) list \<Rightarrow> tensor \<Rightarrow> tensor" where
  "mlp_net sc bias_output i [] x = x"
| "mlp_net sc bias_output i (st # rest) x =
     mlp_net sc bias_output (Suc i) rest
       (let W = Variable (scoped sc (''W'' @ str_nat i) @ '':0'');
            x' = (if rest \<noteq> [] \<or> bias_output
                  then Add (MatMul x W) (Variable (scoped sc (''b'' @ str_nat i) @ '':0''))
                  else MatMul x W)
        in if rest \<noteq> [] then Ext ''f'' [x'] else x')"

definition layer_pairs :: "nat \<Rightarrow> nat list \<Rightarrow> nat \<Rightarrow> (nat \<times> nat) list" where
  "layer_pairs inp_dim hidden outp_dim =
     zip ([inp_dim] @ hidden @ [outp_dim]) (tl ([inp_dim] @ hidden @ [outp_dim]))"

definition critic_fn :: "vscope \<Rightarrow> mdp \<Rightarrow> model_spec \<Rightarrow> tensor \<Rightarrow> tensor \<Rightarrow> tensor" where
  "critic_fn sc m spec s a =
     critic_net (mlp_net (variable_scope sc ''critic'' None) True 0
                   (layer_pairs (state_dim m + action_dim m) (critic_dims spec) 1)
                   (Concat 1 [s, a]))"

definition pointer_critic_states :: "tensor list \<Rightarrow> tensor list \<Rightarrow> tensor list" where
  "pointer_critic_states decoder_inputs decoder_states =
     map (\<lambda>(inputs_t, states_t). Concat 1 [inputs_t, states_t]) (zip decoder_inputs decoder_states)"

text \<open>
  The order of concatenation that the claim on the critic's state gives (hidden state
  first), kept apart from \<open>pointer_critic_states\<close>, which is the order of the source.
\<close>

definition claimed_critic_state :: "tensor \<Rightarrow> tensor \<Rightarrow> tensor" where
  "claimed_critic_state hidden_state decoder_input = Concat 1 [hidden_state, decoder_input]"

definition dpg_scope :: vscope where
  "dpg_scope = variable_scope root_scope ''dpg'' None"

definition small_mdp :: mdp where
  "small_mdp = \<lparr>state_dim = 6, action_dim = 1\<rparr>"

definition small_spec :: model_spec where
  "small_spec = \<lparr>policy_dims = [3], critic_dims = []\<rparr>"

text \<open>The graph that holds the variables of one critic of the scope \<open>dpg\<close>.\<close>

definition critic_graph :: graph where
  "critic_graph = snd (critic_model dpg_scope (Placeholder 0 ''s'' []) (Placeholder 1 ''a'' [])
                         small_mdp small_spec ''critic'' None None empty_graph)"

subsection \<open>Tracking updates and reuse, as functions of the graph\<close>

text \<open>
  \<open>tracking_ops vs src dst t\<close> lists, for every variable of \<open>vs\<close> under the scope \<open>src\<close>,
  the assignment that moves the variable of the same name under \<open>dst\<close> towards it at the
  rate \<open>t\<close>. \<open>mlp_names\<close> lists the names that a layer stack asks of the variable store,
  and \<open>critic_built\<close> holds of a graph whose store has the names of the critic of a scope.
\<close>

definition tracking_ops :: "string list \<Rightarrow> string \<Rightarrow> string \<Rightarrow> tensor \<Rightarrow> update_op list" where
  "tracking_ops vs src dst t =
     map (\<lambda>v. Assign (dst @ ''/'' @ drop (length src + 1) v)
                (Add (Variable (dst @ ''/'' @ drop (length src + 1) v))
                     (Mul t (Sub (Variable v) (Variable (dst @ ''/'' @ drop (length src + 1) v))))))
         (filter (prefix (src @ ''/'')) vs)"

fun mlp_names :: "vscope \<Rightarrow> bool \<Rightarrow> nat \<Rightarrow> (nat \<times> nat) list \<Rightarrow> string list" where
  "mlp_names sc bias_output i [] = []"
| "mlp_names sc bias_output i (st # rest) =
     scoped sc (''W'' @ str_nat i)
     # (if rest \<noteq> [] \<or> bias_output then [scoped sc (''b'' @ str_nat i)] else [])
     @ mlp_names sc bias_output (Suc i) rest"

definition critic_built :: "vscope \<Rightarrow> mdp \<Rightarrow> model_spec \<Rightarrow> graph \<Rightarrow> bool" where
  "critic_built sc m spec g =
     list_all (\<lambda>n. n \<in> set (var_store g))
       (mlp_names (variable_scope sc ''critic'' None) True 0
          (layer_pairs (state_dim m + action_dim m) (critic_dims spec) 1))"

text \<open>
  The output of a GRU step, the policy network and the policy cell of the recurrent
  learner as tensors over the variables that their scopes name.
\<close>

definition gru_fn :: "vscope \<Rightarrow> tensor \<Rightarrow> tensor \<Rightarrow> tensor" where
  "gru_fn sc inp state =
     (let s = variable_scope sc ''GRUCell'' None;
          gates = variable_scope (variable_scope s ''Gates'' None) ''Linear'' None;
          cand = variable_scope (variable_scope s ''Candidate'' None) ''Linear'' None
      in Ext ''GRUCell'' [inp, state,
           Variable (scoped gates ''Matrix'' @ '':0''), Variable (scoped gates ''Bias'' @ '':0''),
           Variable (scoped cand ''Matrix'' @ '':0''), Variable (scoped cand ''Bias'' @ '':0'')])"

definition policy_fn :: "vscope \<Rightarrow> mdp \<Rightarrow> model_spec \<Rightarrow> tensor \<Rightarrow> tensor" where
  "policy_fn sc m spec x =
     mlp_net (variable_scope sc ''policy'' None) False 0
       (layer_pairs (state_dim m) (policy_dims spec) (action_dim m)) x"

definition policy_cell_fn :: "vscope \<Rightarrow> mdp \<Rightarrow> model_spec \<Rightarrow> tensor \<Rightarrow> tensor \<Rightarrow> tensor" where
  "policy_cell_fn sc m spec inp state =
     policy_fn (variable_scope sc ''PolicyRNNCell'' None) m spec (gru_fn sc inp state)"

text \<open>The rate and the variables of the graph of a constructed base learner.\<close>

definition tau_and_variables :: "(error + dpg) \<times> graph \<Rightarrow> (tensor \<times> string list) option" where
  "tau_and_variables r = (case r of (Inr d, g) \<Rightarrow> Some (tau d, variables g) | (Inl _, _) \<Rightarrow> None)"

subsection \<open>Parameters held by both lists\<close>

text \<open>
  \<open>shared_params\<close> lists the members of the first list that the second holds too;
  \<open>result_of\<close> is the value that a construction returns, if it returns one; \<open>bn_names\<close>
  are the names of the two batch-normalisation parameters of an instance.
\<close>

definition shared_params :: "string list \<Rightarrow> string list \<Rightarrow> string list" where
  "shared_params pp cp = filter (\<lambda>v. v \<in> set cp) pp"

definition base_shared_params :: "dpg \<Rightarrow> string list" where
  "base_shared_params d = shared_params (policy_params d) (critic_params d)"

definition pointer_shared_params :: "pointer_dpg \<Rightarrow> string list" where
  "pointer_shared_params d = shared_params (p_policy_params d) (p_critic_params d)"

definition result_of :: "(error + 'a) \<times> graph \<Rightarrow> 'a option" where
  "result_of r = (case fst r of Inr x \<Rightarrow> Some x | Inl _ \<Rightarrow> None)"

definition bn_names :: "string \<Rightarrow> bool \<Rightarrow> string list" where
  "bn_names nm bn_actions =
     (if bn_actions
      then [scoped (variable_scope (variable_scope root_scope nm None) ''bn'' None) ''beta'' @ '':0'',
            scoped (variable_scope (variable_scope root_scope nm None) ''bn'' None) ''gamma'' @ '':0'']
      else [])"

section \<open>Properties\<close>

lemma bind_Inr:
  "bind m f g = (Inr y, g') \<longleftrightarrow> (\<exists>x g1. m g = (Inr x, g1) \<and> f x g1 = (Inr y, g'))"
  by (auto simp: bind_def split: prod.splits sum.splits)

lemma ret_Inr [simp]: "ret x g = (Inr y, g') \<longleftrightarrow> x = y \<and> g = g'"
  by (auto simp: ret_def)

lemma DPG_make_objectives_Inr:
  assumes "DPG_make_objectives con coff q g = (Inr (pp, cp, po, co), g')"
  shows "po = Neg (ReduceMean con None) \<and> co = ReduceMean (Square (Sub coff q)) None
         \<and> pp = filter (sublist ''policy/'') (variables g)
         \<and> cp = filter (sublist ''critic/'') (variables g) \<and> g' = g"
  using assms
  by (auto simp: DPG_make_objectives_def bind_Inr all_variables_def Let_def)

lemma succeedsD: "succeeds r \<Longrightarrow> \<exists>d g'. r = (Inr d, g')"
  by (cases r) (auto simp: succeeds_def split: sum.splits)

lemma index0_Cons [simp]: "index0 (x # xs) g = (Inr x, g)"
  by (simp add: index0_def ret_def)

lemma index0_Nil [simp]: "index0 [] g = (Inl (IndexError ''list index out of range''), g)"
  by (simp add: index0_def raise_def)

subsection \<open>What a successful construction returns\<close>

lemma get_variable_Inr:
  "get_variable sc n g = (Inr v, g') \<Longrightarrow> v = Variable (scoped sc n @ '':0'') \<and> (vs_reuse sc \<longrightarrow> g' = g)"
  by (auto simp: get_variable_def Let_def split: if_splits)

lemma mlp_loop_Inr:
  "mlp_loop sc bo i ps x g = (Inr y, g') \<Longrightarrow> y = mlp_net sc bo i ps x \<and> (vs_reuse sc \<longrightarrow> g' = g)"
proof (induction ps arbitrary: i x g)
  case Nil
  then show ?case by simp
next
  case (Cons p ps)
  from Cons.prems obtain W g1 x' g2 where
    W: "get_variable sc (''W'' @ str_nat i) g = (Inr W, g1)" and
    x': "(if ps \<noteq> [] \<or> bo
          then bind (get_variable sc (''b'' @ str_nat i)) (\<lambda>b. ret (Add (MatMul x W) b))
          else ret (MatMul x W)) g1 = (Inr x', g2)" and
    rest: "mlp_loop sc bo (Suc i) ps (if ps \<noteq> [] then Ext ''f'' [x'] else x') g2 = (Inr y, g')"
    by (auto simp: bind_Inr)
  from W have Wv: "W = Variable (scoped sc (''W'' @ str_nat i) @ '':0'')" and g1: "vs_reuse sc \<longrightarrow> g1 = g"
    using get_variable_Inr by blast+
  from x' have xv: "x' = (if ps \<noteq> [] \<or> bo
                  then Add (MatMul x W) (Variable (scoped sc (''b'' @ str_nat i) @ '':0''))
                  else MatMul x W)" and g2: "vs_reuse sc \<longrightarrow> g2 = g1"
    by (auto simp: bind_Inr split: if_splits dest: get_variable_Inr)
  from Cons.IH [OF rest] Wv xv g1 g2 show ?case
    by (simp add: Let_def)
qed

lemma scoped_variable_scope_reuse:
  "scoped (variable_scope sc n r) = scoped (variable_scope sc n None)"
  by (rule ext) (simp add: scoped_def variable_scope_def)

lemma mlp_net_scope: "scoped sc = scoped sc' \<Longrightarrow> mlp_net sc bo i ps x = mlp_net sc' bo i ps x"
  by (induction ps arbitrary: i x) (simp_all add: Let_def)

lemma critic_model_Inr:
  assumes "critic_model sc s a m spec ''critic'' r ts g = (Inr y, g')"
  shows "y = critic_fn sc m spec s a \<and> (r = Some True \<or> vs_reuse sc \<longrightarrow> g' = g)"
proof -
  from assms obtain out where
    out: "mlp_loop (variable_scope sc ''critic'' r) True 0
            (layer_pairs (state_dim m + action_dim m) (critic_dims spec) 1) (Concat 1 [s, a]) g = (Inr out, g')"
    and y: "y = critic_net out"
    by (auto simp: critic_model_def mlp_def bind_Inr layer_pairs_def Let_def)
  from mlp_loop_Inr [OF out] have
    "out = mlp_net (variable_scope sc ''critic'' r) True 0
            (layer_pairs (state_dim m + action_dim m) (critic_dims spec) 1) (Concat 1 [s, a])"
    and g: "vs_reuse (variable_scope sc ''critic'' r) \<longrightarrow> g' = g"
    by blast+
  then have "out = mlp_net (variable_scope sc ''critic'' None) True 0
            (layer_pairs (state_dim m + action_dim m) (critic_dims spec) 1) (Concat 1 [s, a])"
    using mlp_net_scope [OF scoped_variable_scope_reuse] by metis
  with y g show ?thesis
    by (auto simp: critic_fn_def variable_scope_def)
qed

lemma RecurrentDPG_critic_loop_Inr:
  "RecurrentDPG_critic_loop sc m spec reuse t zs g = (Inr scores, g') \<Longrightarrow>
     scores = map (\<lambda>(s, a). critic_fn sc m spec s a) zs
     \<and> (reuse = Some True \<or> 0 < t \<longrightarrow> g' = g)"
proof (induction zs arbitrary: t g scores)
  case Nil
  then show ?case by simp
next
  case (Cons z zs)
  obtain s a where z: "z = (s, a)" by (cases z)
  from Cons.prems z obtain score g1 rest where
    c: "critic_model sc s a m spec ''critic'' (if reuse = Some True \<or> 0 < t then Some True else None) None g
          = (Inr score, g1)" and
    r: "RecurrentDPG_critic_loop sc m spec reuse (Suc t) zs g1 = (Inr rest, g')" and
    sc: "scores = score # rest"
    by (auto simp: bind_Inr)
  from critic_model_Inr [OF c] Cons.IH [OF r] z sc show ?case
    by auto
qed

lemma PointerNetDPG_critic_loop_Inr:
  "PointerNetDPG_critic_loop sc m spec reuse t zs g = (Inr scores, g') \<Longrightarrow>
     scores = map (\<lambda>(s, a). critic_fn sc m spec s a) zs
     \<and> (reuse = Some True \<or> 0 < t \<longrightarrow> g' = g)"
proof (induction zs arbitrary: t g scores)
  case Nil
  then show ?case by simp
next
  case (Cons z zs)
  obtain s a where z: "z = (s, a)" by (cases z)
  from Cons.prems z obtain score g1 rest where
    c: "critic_model sc s a m spec ''critic'' (if reuse = Some True \<or> 0 < t then Some True else None) None g
          = (Inr score, g1)" and
    r: "PointerNetDPG_critic_loop sc m spec reuse (Suc t) zs g1 = (Inr rest, g')" and
    sc: "scores = score # rest"
    by (auto simp: bind_Inr Let_def)
  from critic_model_Inr [OF c] PointerNetDPG_critic_loop.simps Cons.IH [OF r] z sc show ?case
    by auto
qed

lemma as_list_Inr: "as_list ts g = (Inr xs, g') \<longleftrightarrow> ts = Many xs \<and> g' = g"
  by (auto simp: as_list_def ret_def raise_def split: tensors.splits)

lemma as_tensor_Inr: "as_tensor ts g = (Inr x, g') \<longleftrightarrow> ts = One x \<and> g' = g"
  by (auto simp: as_tensor_def ret_def raise_def split: tensors.splits)

lemma PointerNetDPG_critic_Inr:
  assumes "PointerNetDPG_critic sc m spec di ds acts reuse g = (Inr scores, g')"
  shows "scores = map (\<lambda>(s, a). critic_fn sc m spec s a) (zip (pointer_critic_states di ds) acts)
         \<and> (reuse = Some True \<longrightarrow> g' = g)"
  using assms PointerNetDPG_critic_loop_Inr
  by (fastforce simp: PointerNetDPG_critic_def pointer_critic_states_def Let_def)

lemma RecurrentDPG_critic_Inr:
  assumes "RecurrentDPG_critic sc m spec sts acts reuse g = (Inr scores, g')"
  shows "scores = map (\<lambda>(s, a). critic_fn sc m spec s a) (zip sts acts)
         \<and> (reuse = Some True \<longrightarrow> g' = g)"
  using assms RecurrentDPG_critic_loop_Inr
  by (fastforce simp: RecurrentDPG_critic_def)

lemma PointerNetDPG_make_graph_Inr:
  assumes "PointerNetDPG_make_graph sc nz m spec slen bn inps q0 g
             = (Inr (enc, di, ds, ap, ae, con, coff, q), g')"
  shows "con = map (\<lambda>(s, a). critic_fn sc m spec s a) (zip (pointer_critic_states di ds) ap)
         \<and> (\<exists>ael. ae = Many ael
              \<and> coff = map (\<lambda>(s, a). critic_fn sc m spec s a) (zip (pointer_critic_states di ds) ael))"
  using assms
  apply (clarsimp simp: PointerNetDPG_make_graph_def bind_Inr Let_def as_list_Inr)
  apply (auto dest!: PointerNetDPG_critic_Inr)
  done

lemma RecurrentDPG_make_graph_Inr:
  assumes "RecurrentDPG_make_graph sc lfm nz m spec idim slen inp dsi g
             = (Inr (ap, ds, ae, con_seq, coff_seq, con, coff), g')"
  shows "con_seq = map (\<lambda>(s, a). critic_fn sc m spec s a) (zip ds ap)
         \<and> (\<exists>ael. ae = Many ael
              \<and> coff_seq = map (\<lambda>(s, a). critic_fn sc m spec s a) (zip ds ael))"
  using assms
  apply (clarsimp simp: RecurrentDPG_make_graph_def bind_Inr Let_def as_list_Inr)
  apply (auto dest!: RecurrentDPG_critic_Inr)
  done

lemma DPG_make_graph_Inr:
  assumes "DPG_make_graph sc nm nz m spec inp g = (Inr (ap, ae, con, coff, apt, cont), g')"
  shows "con = critic_fn sc m spec inp ap
         \<and> (\<exists>aet. ae = One aet \<and> coff = critic_fn sc m spec inp aet)"
  using assms
  apply (clarsimp simp: DPG_make_graph_def bind_Inr as_tensor_Inr)
  apply (auto dest!: critic_model_Inr)
  done

lemma PointerNetDPG_init_Inr:
  assumes "PointerNetDPG_init m spec idim slen bn inputs0 q_targets0 tau0 noiser0 nm g = (Inr d, g')"
  shows "\<exists>bnp inps g1 g2 q. 
     PointerNetDPG_make_graph (variable_scope root_scope nm None)
        (case noiser0 of None \<Rightarrow> gaussian 0.1 | Some f \<Rightarrow> f) m spec slen bnp inps q_targets0 g1
       = (Inr (p_encoder_states d, p_decoder_inputs d, p_decoder_states d, p_a_pred d, p_a_explore d,
               p_critic_on d, p_critic_off d, q), g2)
     \<and> p_track_update d = None"
  using assms
  apply (clarsimp simp: PointerNetDPG_init_def PointerNetDPG_construct_def Let_def bind_Inr
        PointerNetDPG_make_updates_def)
  apply blast
  done

lemma RecurrentDPG_init_Inr:
  assumes "RecurrentDPG_init lfm m spec idim vsize slen inputs0 q_targets0 tau0 noiser0 nm g = (Inr d, g')"
  shows "\<exists>g1 g2. 
     RecurrentDPG_make_graph (variable_scope root_scope nm None) lfm
        (case noiser0 of None \<Rightarrow> gaussian 0.1 | Some f \<Rightarrow> f) m spec idim slen (r_inputs d)
        (r_decoder_state_ind d) g1
       = (Inr (r_a_pred d, r_decoder_states d, r_a_explore d, r_critic_on_seq d, r_critic_off_seq d,
               r_critic_on d, r_critic_off d), g2)
     \<and> r_track_update d = None"
  using assms
  apply (clarsimp simp: RecurrentDPG_init_def Let_def bind_Inr RecurrentDPG_make_updates_def)
  apply blast
  done

lemma DPG_init_Inr:
  assumes "DPG_init m spec inputs0 q_targets0 tau0 noiser0 nm g = (Inr d, g')"
  shows "\<exists>g1 g2. 
     DPG_make_graph (variable_scope root_scope nm None) nm
        (case noiser0 of None \<Rightarrow> gaussian 0.1 | Some f \<Rightarrow> f) m spec (inputs d) g1
       = (Inr (a_pred d, a_explore d, critic_on d, critic_off d, a_pred_track d, critic_on_track d), g2)
     \<and> (\<exists>pu cu. track_update d = Some (Group [pu, cu]))"
  using assms
  apply (clarsimp simp: DPG_init_def Let_def bind_Inr DPG_make_updates_def)
  apply blast
  done

subsection \<open>Tracking updates\<close>

lemma track_pairs_Inr:
  "track_pairs vs src dst t xs = Inr ops \<Longrightarrow> ops = tracking_ops xs src dst t"
proof (induction xs arbitrary: ops)
  case Nil
  then show ?case by (simp add: tracking_ops_def)
next
  case (Cons v xs)
  then show ?case
    by (auto simp: tracking_ops_def strip_scope_def split: if_splits sum.splits)
qed

lemma track_model_updates_Inr:
  "track_model_updates src dst t g = (Inr u, g') \<Longrightarrow>
     g' = g \<and> u = Group (tracking_ops (variables g) src dst t)"
  by (auto simp: track_model_updates_def split: sum.splits dest: track_pairs_Inr)

lemma DPG_make_updates_Inr:
  "DPG_make_updates nm t g = (Inr u, g') \<Longrightarrow>
     g' = g \<and> u = Some (Group [Group (tracking_ops (variables g) (nm @ ''/policy'') (nm @ ''/policy_track'') t),
                                Group (tracking_ops (variables g) (nm @ ''/critic'') (nm @ ''/critic_track'') t)])"
  by (auto simp: DPG_make_updates_def bind_Inr dest!: track_model_updates_Inr)

lemma DPG_init_track_update:
  assumes "DPG_init m spec inputs0 q_targets0 tau0 noiser0 nm g = (Inr d, g')"
  shows "track_update d =
           Some (Group [Group (tracking_ops (variables g') (nm @ ''/policy'') (nm @ ''/policy_track'') (tau d)),
                        Group (tracking_ops (variables g') (nm @ ''/critic'') (nm @ ''/critic_track'') (tau d))])"
  using assms
  apply (clarsimp simp: DPG_init_def Let_def bind_Inr)
  apply (auto dest!: DPG_make_updates_Inr)
  done


subsection \<open>Building once, reusing afterwards\<close>

lemma get_variable_store:
  "get_variable sc n g = (Inr v, g') \<Longrightarrow>
     scoped sc n \<in> set (var_store g') \<and> set (var_store g) \<subseteq> set (var_store g')"
  by (auto simp: get_variable_def Let_def split: if_splits)

lemma mlp_loop_store:
  "mlp_loop sc bo i ps x g = (Inr y, g') \<Longrightarrow>
     set (mlp_names sc bo i ps) \<subseteq> set (var_store g') \<and> set (var_store g) \<subseteq> set (var_store g')"
proof (induction ps arbitrary: i x g)
  case Nil
  then show ?case by simp
next
  case (Cons p ps)
  from Cons.prems obtain W g1 x' g2 where
    W: "get_variable sc (''W'' @ str_nat i) g = (Inr W, g1)" and
    x': "(if ps \<noteq> [] \<or> bo
          then bind (get_variable sc (''b'' @ str_nat i)) (\<lambda>b. ret (Add (MatMul x W) b))
          else ret (MatMul x W)) g1 = (Inr x', g2)" and
    rest: "mlp_loop sc bo (Suc i) ps (if ps \<noteq> [] then Ext ''f'' [x'] else x') g2 = (Inr y, g')"
    by (auto simp: bind_Inr)
  from get_variable_store [OF W] have 1: "scoped sc (''W'' @ str_nat i) \<in> set (var_store g1)"
    and 2: "set (var_store g) \<subseteq> set (var_store g1)" by blast+
  from x' have 3: "(ps \<noteq> [] \<or> bo \<longrightarrow> scoped sc (''b'' @ str_nat i) \<in> set (var_store g2))"
    and 4: "set (var_store g1) \<subseteq> set (var_store g2)"
    by (auto simp: bind_Inr split: if_splits dest: get_variable_store)
  from Cons.IH [OF rest] have 5: "set (mlp_names sc bo (Suc i) ps) \<subseteq> set (var_store g')"
    and 6: "set (var_store g2) \<subseteq> set (var_store g')" by blast+
  from 1 2 3 4 5 6 show ?case by auto
qed

lemma get_variable_reuse:
  "vs_reuse sc \<Longrightarrow> scoped sc n \<in> set (var_store g) \<Longrightarrow>
     get_variable sc n g = (Inr (Variable (scoped sc n @ '':0'')), g)"
  by (simp add: get_variable_def Let_def)

lemma mlp_loop_reuse:
  "vs_reuse sc \<Longrightarrow> set (mlp_names sc bo i ps) \<subseteq> set (var_store g) \<Longrightarrow>
     mlp_loop sc bo i ps x g = (Inr (mlp_net sc bo i ps x), g)"
proof (induction ps arbitrary: i x)
  case Nil
  then show ?case by (simp add: ret_def)
next
  case (Cons p ps)
  then show ?case
    by (auto simp: bind_def ret_def get_variable_reuse Let_def)
qed

lemma mlp_names_scope: "scoped sc = scoped sc' \<Longrightarrow> mlp_names sc bo i ps = mlp_names sc' bo i ps"
  by (induction ps arbitrary: i) simp_all

lemma critic_model_first:
  assumes "critic_model sc s a m spec ''critic'' r ts g = (Inr y, g1)"
  shows "critic_built sc m spec g1"
proof -
  from assms obtain out where
    out: "mlp_loop (variable_scope sc ''critic'' r) True 0
            (layer_pairs (state_dim m + action_dim m) (critic_dims spec) 1) (Concat 1 [s, a]) g = (Inr out, g1)"
    by (auto simp: critic_model_def mlp_def bind_Inr layer_pairs_def Let_def)
  from mlp_loop_store [OF out]
  have "set (mlp_names (variable_scope sc ''critic'' r) True 0
          (layer_pairs (state_dim m + action_dim m) (critic_dims spec) 1)) \<subseteq> set (var_store g1)"
    by blast
  moreover have "mlp_names (variable_scope sc ''critic'' r) True 0
          (layer_pairs (state_dim m + action_dim m) (critic_dims spec) 1)
        = mlp_names (variable_scope sc ''critic'' None) True 0
          (layer_pairs (state_dim m + action_dim m) (critic_dims spec) 1)"
    by (rule mlp_names_scope) (rule scoped_variable_scope_reuse)
  ultimately show ?thesis
    by (simp add: critic_built_def list_all_iff subset_eq)
qed

lemma critic_model_reuse:
  assumes "critic_built sc m spec g"
  shows "critic_model sc s a m spec ''critic'' (Some True) ts g = (Inr (critic_fn sc m spec s a), g)"
proof -
  have n: "set (mlp_names (variable_scope sc ''critic'' (Some True)) True 0
          (layer_pairs (state_dim m + action_dim m) (critic_dims spec) 1)) \<subseteq> set (var_store g)"
  proof -
    have "mlp_names (variable_scope sc ''critic'' (Some True)) True 0
          (layer_pairs (state_dim m + action_dim m) (critic_dims spec) 1)
        = mlp_names (variable_scope sc ''critic'' None) True 0
          (layer_pairs (state_dim m + action_dim m) (critic_dims spec) 1)"
      by (rule mlp_names_scope) (rule scoped_variable_scope_reuse)
    with assms show ?thesis
      by (simp add: critic_built_def list_all_iff subset_eq)
  qed
  have r: "vs_reuse (variable_scope sc ''critic'' (Some True))"
    by (simp add: variable_scope_def)
  have e: "mlp_net (variable_scope sc ''critic'' (Some True)) True 0
            (layer_pairs (state_dim m + action_dim m) (critic_dims spec) 1) (Concat 1 [s, a])
         = mlp_net (variable_scope sc ''critic'' None) True 0
            (layer_pairs (state_dim m + action_dim m) (critic_dims spec) 1) (Concat 1 [s, a])"
    by (rule mlp_net_scope) (rule scoped_variable_scope_reuse)
  show ?thesis
    using mlp_loop_reuse [OF r n, of "Concat 1 [s, a]"] e
    by (simp add: critic_model_def mlp_def bind_def ret_def layer_pairs_def critic_fn_def Let_def)
qed

lemma RecurrentDPG_critic_loop_reuse:
  "critic_built sc m spec g \<Longrightarrow> reuse = Some True \<or> 0 < t \<Longrightarrow>
     RecurrentDPG_critic_loop sc m spec reuse t zs g
       = (Inr (map (\<lambda>(s, a). critic_fn sc m spec s a) zs), g)"
proof (induction zs arbitrary: t)
  case Nil
  then show ?case by (simp add: ret_def)
next
  case (Cons z zs)
  obtain s a where z: "z = (s, a)" by (cases z)
  have "RecurrentDPG_critic_loop sc m spec reuse (Suc t) zs g
       = (Inr (map (\<lambda>(s, a). critic_fn sc m spec s a) zs), g)"
    using Cons.IH [OF Cons.prems(1)] by simp
  then show ?case
    using Cons.prems z critic_model_reuse [OF Cons.prems(1)]
    by (auto simp: bind_def ret_def)
qed

lemma PointerNetDPG_critic_loop_reuse:
  "critic_built sc m spec g \<Longrightarrow> reuse = Some True \<or> 0 < t \<Longrightarrow>
     PointerNetDPG_critic_loop sc m spec reuse t zs g
       = (Inr (map (\<lambda>(s, a). critic_fn sc m spec s a) zs), g)"
proof (induction zs arbitrary: t)
  case Nil
  then show ?case by (simp add: ret_def)
next
  case (Cons z zs)
  obtain s a where z: "z = (s, a)" by (cases z)
  have "PointerNetDPG_critic_loop sc m spec reuse (Suc t) zs g
       = (Inr (map (\<lambda>(s, a). critic_fn sc m spec s a) zs), g)"
    using Cons.IH [OF Cons.prems(1)] by simp
  then show ?case
    using Cons.prems z critic_model_reuse [OF Cons.prems(1)]
    by (auto simp: bind_def ret_def Let_def)
qed

lemma RecurrentDPG_critic_pass:
  assumes "critic_model sc s a m spec ''critic'' None None g = (Inr y, g1)"
  shows "RecurrentDPG_critic sc m spec (s # sts) (a # acts) None g
           = (Inr (map (\<lambda>(s, a). critic_fn sc m spec s a) (zip (s # sts) (a # acts))), g1)"
proof -
  from critic_model_Inr [OF assms] have y: "y = critic_fn sc m spec s a" by simp
  from RecurrentDPG_critic_loop_reuse [OF critic_model_first [OF assms], of None "Suc 0" "zip sts acts"]
  show ?thesis
    using assms y by (simp add: RecurrentDPG_critic_def bind_def ret_def)
qed

lemma PointerNetDPG_critic_pass:
  assumes "critic_model sc (Concat 1 [x, h]) a m spec ''critic'' None None g = (Inr y, g1)"
  shows "PointerNetDPG_critic sc m spec (x # di) (h # ds) (a # acts) None g
           = (Inr (map (\<lambda>(s, a). critic_fn sc m spec s a)
                     (zip (pointer_critic_states (x # di) (h # ds)) (a # acts))), g1)"
proof -
  from critic_model_Inr [OF assms] have y: "y = critic_fn sc m spec (Concat 1 [x, h]) a" by simp
  from PointerNetDPG_critic_loop_reuse [OF critic_model_first [OF assms], of None "Suc 0"]
  show ?thesis
    using assms y
    by (simp add: PointerNetDPG_critic_def pointer_critic_states_def bind_def ret_def Let_def)
qed

lemma RecurrentDPG_critic_reuse:
  "critic_built sc m spec g \<Longrightarrow>
     RecurrentDPG_critic sc m spec sts acts (Some True) g
       = (Inr (map (\<lambda>(s, a). critic_fn sc m spec s a) (zip sts acts)), g)"
  by (simp add: RecurrentDPG_critic_def RecurrentDPG_critic_loop_reuse)

lemma PointerNetDPG_critic_reuse:
  "critic_built sc m spec g \<Longrightarrow>
     PointerNetDPG_critic sc m spec di ds acts (Some True) g
       = (Inr (map (\<lambda>(s, a). critic_fn sc m spec s a) (zip (pointer_critic_states di ds) acts)), g)"
  by (simp add: PointerNetDPG_critic_def PointerNetDPG_critic_loop_reuse pointer_critic_states_def Let_def)


subsection \<open>Lengths of the rollouts\<close>

lemma rnn_decoder_loop_length:
  "rnn_decoder_loop c lf sc i prev st inps g = (Inr (outs, sts), g') \<Longrightarrow>
     length outs = length inps \<and> length sts = length inps"
proof (induction inps arbitrary: sc i prev st g outs sts)
  case Nil
  then show ?case by simp
next
  case (Cons inp inps)
  then show ?case
    by (fastforce simp: bind_Inr split: prod.splits)
qed

lemma rnn_loop_length:
  "rnn_loop c sc i st inps g = (Inr (outs, sts), g') \<Longrightarrow>
     length outs = length inps \<and> length sts = length inps"
proof (induction inps arbitrary: sc i st g outs sts)
  case Nil
  then show ?case by simp
next
  case (Cons inp inps)
  then show ?case
    by (fastforce simp: bind_Inr split: prod.splits)
qed

lemma ptr_net_loop_length:
  "ptr_net_loop c lf attn sc i prev st inps g = (Inr (outs, sts, dis), g') \<Longrightarrow>
     length outs = length inps \<and> length sts = length inps \<and> length dis = length inps"
proof (induction inps arbitrary: sc i prev st g outs sts dis)
  case Nil
  then show ?case by simp
next
  case (Cons inp inps)
  then show ?case
    by (fastforce simp: bind_Inr split: prod.splits)
qed

lemma mapM_length:
  "mapM f xs g = (Inr ys, g') \<Longrightarrow> length ys = length xs"
  by (induction xs arbitrary: g ys) (auto simp: bind_Inr)

lemma noise_gaussian_Many:
  "noise_gaussian inp (Many as) sd g = (Inr r, g') \<Longrightarrow> \<exists>res. r = Many res \<and> length res = length as"
  by (auto simp: bind_Inr dest: mapM_length)


lemma linear_Inr:
  "linear sc g = (Inr (M, B), g') \<Longrightarrow>
     M = Variable (scoped (variable_scope sc ''Linear'' None) ''Matrix'' @ '':0'')
     \<and> B = Variable (scoped (variable_scope sc ''Linear'' None) ''Bias'' @ '':0'')"
  by (auto simp: linear_def bind_Inr dest!: get_variable_Inr)

lemma GRUCell_call_Inr:
  "GRUCell_call n sc inp state g = (Inr (out, st), g') \<Longrightarrow>
     out = gru_fn sc inp state \<and> st = gru_fn sc inp state"
  by (auto simp: GRUCell_call_def gru_fn_def Let_def bind_Inr dest!: linear_Inr)

lemma policy_model_Inr:
  assumes "policy_model sc x m spec ''policy'' r ts g = (Inr y, g')"
  shows "y = policy_fn sc m spec x"
proof -
  from assms have
    out: "mlp_loop (variable_scope sc ''policy'' r) False 0
            (layer_pairs (state_dim m) (policy_dims spec) (action_dim m)) x g = (Inr y, g')"
    by (auto simp: policy_model_def mlp_def layer_pairs_def Let_def)
  from mlp_loop_Inr [OF out] have
    "y = mlp_net (variable_scope sc ''policy'' r) False 0
            (layer_pairs (state_dim m) (policy_dims spec) (action_dim m)) x"
    by blast
  moreover have "mlp_net (variable_scope sc ''policy'' r) False 0
            (layer_pairs (state_dim m) (policy_dims spec) (action_dim m)) x
       = mlp_net (variable_scope sc ''policy'' None) False 0
            (layer_pairs (state_dim m) (policy_dims spec) (action_dim m)) x"
    by (rule mlp_net_scope) (rule scoped_variable_scope_reuse)
  ultimately show ?thesis
    by (simp add: policy_fn_def)
qed

lemma PolicyRNNCell_call_Inr:
  "PolicyRNNCell_call (GRUCell_call n) m spec sc inp state g = (Inr (actions, st), g') \<Longrightarrow>
     actions = policy_cell_fn sc m spec inp state \<and> st = gru_fn sc inp state"
  by (auto simp: PolicyRNNCell_call_def policy_cell_fn_def bind_Inr
           dest!: GRUCell_call_Inr policy_model_Inr)

lemma rnn_decoder_length:
  "rnn_decoder sc dis init c lf g = (Inr (outs, sts), g') \<Longrightarrow>
     length outs = length dis \<and> length (tl sts) = length dis"
  by (auto simp: rnn_decoder_def bind_Inr dest!: rnn_decoder_loop_length)

lemma ptr_net_decoder_length:
  "ptr_net_decoder sc dis init attn c lf scope g = (Inr (outs, sts, inps), g') \<Longrightarrow>
     length outs = length dis \<and> length (tl sts) = length dis \<and> length inps = length dis"
  by (auto simp: ptr_net_decoder_def bind_Inr dest!: ptr_net_loop_length)

lemma batch_normalize_length:
  "length ap = slen \<Longrightarrow> length (batch_normalize slen bn ap) = slen"
  by (auto simp: batch_normalize_def Let_def split: option.splits)

lemma RecurrentDPG_make_graph_shape:
  assumes "RecurrentDPG_make_graph sc lfm nz m spec idim slen inp dsi g
             = (Inr (ap, ds, ae, con_seq, coff_seq, con, coff), g')"
  shows "length ap = slen \<and> length ds = slen
         \<and> (\<exists>ga gb. nz (One inp) (Many ap) ga = (Inr ae, gb))
         \<and> con = critic_fn sc m spec dsi (policy_cell_fn sc m spec inp dsi)
         \<and> (\<exists>a_explore_ind ga gb.
               nz (One inp) (One (policy_cell_fn sc m spec inp dsi)) ga = (Inr (One a_explore_ind), gb)
               \<and> coff = critic_fn sc m spec dsi a_explore_ind)"
  using assms
  apply (clarsimp simp: RecurrentDPG_make_graph_def bind_Inr Let_def as_list_Inr as_tensor_Inr
           RecurrentDPG_policy_cell_def)
  apply (auto dest!: rnn_decoder_length PolicyRNNCell_call_Inr critic_model_Inr)
  done

lemma PointerNetDPG_make_graph_shape:
  assumes "PointerNetDPG_make_graph sc nz m spec slen bn inps q0 g
             = (Inr (enc, di, ds, ap, ae, con, coff, q), g')"
  shows "length enc = slen \<and> length di = slen \<and> length ds = slen \<and> length ap = slen
         \<and> (\<exists>ga gb. nz (Many inps) (Many ap) ga = (Inr ae, gb))"
  using assms
  apply (clarsimp simp: PointerNetDPG_make_graph_def bind_Inr Let_def as_list_Inr py_assert_def raise_def
           split: if_splits)
  apply (auto dest!: ptr_net_decoder_length simp: batch_normalize_length)
  done


subsection \<open>The parameter lists of a construction\<close>

lemma scalar_summary_Inr:
  "scalar_summary tag t g = (Inr u, g') \<Longrightarrow> variables g' = variables g"
  by (auto simp: scalar_summary_def)

lemma add_n_Inr: "add_n xs g = (Inr y, g') \<Longrightarrow> g' = g"
  by (auto simp: add_n_def raise_def split: if_splits)

lemma PointerNetDPG_make_objectives_Inr:
  assumes "PointerNetDPG_make_objectives b bn slen ap con coff q g = (Inr (pp, cp, po, co), g')"
  shows "pp = filter (\<lambda>v. sublist ''encoder/'' v \<or> sublist ''decoder/'' v) (variables g)
              @ (if b then (case bn of Some (bn_beta, bn_gamma) \<Rightarrow> [var_name bn_beta, var_name bn_gamma]
                            | None \<Rightarrow> []) else [])
         \<and> cp = filter (sublist ''critic/'') (variables g)
              @ (if b then (case bn of Some (bn_beta, bn_gamma) \<Rightarrow> [var_name bn_beta, var_name bn_gamma]
                            | None \<Rightarrow> []) else [])
         \<and> variables g' = variables g"
  using assms
  apply (clarsimp simp: PointerNetDPG_make_objectives_def PointerNetDPG_policy_params_def
           all_variables_def bind_Inr Let_def)
  apply (auto dest!: add_n_Inr scalar_summary_Inr)
  done

lemma PointerNetDPG_make_params_Inr:
  assumes "PointerNetDPG_make_params sc b g = (Inr bn, g')"
  shows "bn = (if b then Some (Variable (scoped (variable_scope sc ''bn'' None) ''beta'' @ '':0''),
                               Variable (scoped (variable_scope sc ''bn'' None) ''gamma'' @ '':0''))
               else None)"
  using assms
  by (auto simp: PointerNetDPG_make_params_def bind_Inr new_variable_def scalar_summary_def
           split: if_splits)

lemma PointerNetDPG_init_params:
  assumes "PointerNetDPG_init m spec idim slen b inputs0 q_targets0 tau0 noiser0 nm g = (Inr d, g')"
  shows "p_policy_params d =
           filter (\<lambda>v. sublist ''encoder/'' v \<or> sublist ''decoder/'' v) (variables g') @ bn_names nm b
         \<and> p_critic_params d = filter (sublist ''critic/'') (variables g') @ bn_names nm b"
  using assms
  apply (clarsimp simp: PointerNetDPG_init_def PointerNetDPG_construct_def Let_def bind_Inr
        PointerNetDPG_make_updates_def)
  apply (auto dest!: PointerNetDPG_make_objectives_Inr PointerNetDPG_make_params_Inr
              simp: bn_names_def)
  done

lemma DPG_init_params:
  assumes "DPG_init m spec inputs0 q_targets0 tau0 noiser0 nm g = (Inr d, g')"
  shows "policy_params d = filter (sublist ''policy/'') (variables g')
         \<and> critic_params d = filter (sublist ''critic/'') (variables g')"
  using assms
  apply (clarsimp simp: DPG_init_def Let_def bind_Inr)
  apply (auto dest!: DPG_make_objectives_Inr DPG_make_updates_Inr)
  done

lemma RecurrentDPG_init_params:
  assumes "RecurrentDPG_init lfm m spec idim vsize slen inputs0 q_targets0 tau0 noiser0 nm g = (Inr d, g')"
  shows "r_policy_params d = filter (sublist ''policy/'') (variables g')
         \<and> r_critic_params d = filter (sublist ''critic/'') (variables g')"
  using assms
  apply (clarsimp simp: RecurrentDPG_init_def Let_def bind_Inr RecurrentDPG_make_updates_def)
  apply (auto dest!: DPG_make_objectives_Inr)
  done

lemma scope_marker:
  assumes "n \<noteq> []"
  shows "sublist (n @ ''/'') (scoped (variable_scope sc n r) v @ '':0'')"
proof (cases "vs_name sc = []")
  case True
  with assms have "scoped (variable_scope sc n r) v @ '':0'' = [] @ (n @ ''/'') @ (v @ '':0'')"
    by (simp add: scoped_def variable_scope_def)
  then show ?thesis unfolding sublist_def by blast
next
  case False
  then have "scoped (variable_scope sc n r) v @ '':0'' = (vs_name sc @ ''/'') @ (n @ ''/'') @ (v @ '':0'')"
    by (simp add: scoped_def variable_scope_def)
  then show ?thesis unfolding sublist_def by blast
qed

lemma shared_filters:
  "set (shared_params (filter P xs) (filter Q xs)) = {v \<in> set xs. P v \<and> Q v}"
  by (auto simp: shared_params_def)

lemma shared_filters_append:
  "set (shared_params (filter P xs @ bs) (filter Q xs @ bs)) = {v \<in> set xs. P v \<and> Q v} \<union> set bs"
  by (auto simp: shared_params_def)

subsection \<open>Concrete constructions\<close>

lemma base_instance:
  "succeeds (DPG_init \<lparr>state_dim = 4, action_dim = 2\<rparr> \<lparr>policy_dims = [8, 8], critic_dims = [8, 8]\<rparr>
      None None None None ''dpg'' empty_graph)"
  by code_simp

lemma recurrent_instance:
  "succeeds (RecurrentDPG_init (ret (\<lambda>x t. ret x)) \<lparr>state_dim = 3, action_dim = 1\<rparr>
      \<lparr>policy_dims = [3], critic_dims = []\<rparr> 1 1 1 None None None None ''dpg'' empty_graph)"
  by code_simp

lemma pointer_instance:
  "succeeds (PointerNetDPG_init \<lparr>state_dim = 6, action_dim = 1\<rparr> \<lparr>policy_dims = [3], critic_dims = []\<rparr>
      1 1 True None None None None ''dpg'' empty_graph)"
  by code_simp

lemma recurrent_instance2:
  "succeeds (RecurrentDPG_init (ret (\<lambda>x t. ret x)) \<lparr>state_dim = 3, action_dim = 1\<rparr>
      \<lparr>policy_dims = [3], critic_dims = []\<rparr> 1 1 2 None None None None ''dpg'' empty_graph)"
  by code_simp

lemma base_tau_variables:
  "tau_and_variables (DPG_init \<lparr>state_dim = 4, action_dim = 2\<rparr> \<lparr>policy_dims = [8, 8], critic_dims = [8, 8]\<rparr>
      None None None None ''dpg'' empty_graph)
   = Some (Placeholder 2 ''tau'' [Some 1],
       [''dpg/policy/W0:0'', ''dpg/policy/b0:0'', ''dpg/policy/W1:0'',
        ''dpg/policy/b1:0'', ''dpg/policy/W2:0'', ''dpg/critic/W0:0'',
        ''dpg/critic/b0:0'', ''dpg/critic/W1:0'', ''dpg/critic/b1:0'',
        ''dpg/critic/W2:0'', ''dpg/critic/b2:0'', ''dpg/policy_track/W0:0'',
        ''dpg/policy_track/b0:0'', ''dpg/policy_track/W1:0'',
        ''dpg/policy_track/b1:0'', ''dpg/policy_track/W2:0'',
        ''dpg/critic_track/W0:0'', ''dpg/critic_track/b0:0'',
        ''dpg/critic_track/W1:0'', ''dpg/critic_track/b1:0'',
        ''dpg/critic_track/W2:0'', ''dpg/critic_track/b2:0''])"
  by code_simp

lemma recurrent_variables:
  "variables (snd (RecurrentDPG_init (ret (\<lambda>x t. ret x)) \<lparr>state_dim = 3, action_dim = 1\<rparr>
      \<lparr>policy_dims = [3], critic_dims = []\<rparr> 1 1 2 None None None None ''dpg'' empty_graph))
   = [''dpg/rnn_decoder/GRUCell/Gates/Linear/Matrix:0'',
      ''dpg/rnn_decoder/GRUCell/Gates/Linear/Bias:0'',
      ''dpg/rnn_decoder/GRUCell/Candidate/Linear/Matrix:0'',
      ''dpg/rnn_decoder/GRUCell/Candidate/Linear/Bias:0'',
      ''dpg/rnn_decoder/PolicyRNNCell/policy/W0:0'',
      ''dpg/rnn_decoder/PolicyRNNCell/policy/b0:0'',
      ''dpg/rnn_decoder/PolicyRNNCell/policy/W1:0'', ''dpg/critic/W0:0'',
      ''dpg/critic/b0:0'', ''dpg/GRUCell/Gates/Linear/Matrix:0'',
      ''dpg/GRUCell/Gates/Linear/Bias:0'',
      ''dpg/GRUCell/Candidate/Linear/Matrix:0'',
      ''dpg/GRUCell/Candidate/Linear/Bias:0'',
      ''dpg/PolicyRNNCell/policy/W0:0'', ''dpg/PolicyRNNCell/policy/b0:0'',
      ''dpg/PolicyRNNCell/policy/W1:0'']"
  by code_simp

lemma pointer_variables:
  "variables (snd (PointerNetDPG_init \<lparr>state_dim = 6, action_dim = 1\<rparr> \<lparr>policy_dims = [3], critic_dims = []\<rparr>
      1 1 True None None None None ''dpg'' empty_graph))
   = [''dpg/bn/beta:0'', ''dpg/bn/gamma:0'',
      ''dpg/encoder/GRUCell/Gates/Linear/Matrix:0'',
      ''dpg/encoder/GRUCell/Gates/Linear/Bias:0'',
      ''dpg/encoder/GRUCell/Candidate/Linear/Matrix:0'',
      ''dpg/encoder/GRUCell/Candidate/Linear/Bias:0'',
      ''dpg/decoder/GRUCell/Gates/Linear/Matrix:0'',
      ''dpg/decoder/GRUCell/Gates/Linear/Bias:0'',
      ''dpg/decoder/GRUCell/Candidate/Linear/Matrix:0'',
      ''dpg/decoder/GRUCell/Candidate/Linear/Bias:0'', ''dpg/critic/W0:0'',
      ''dpg/critic/b0:0'']"
  by code_simp

subsection \<open>Objectives of the base learner\<close>

text \<open>
  Claim C1. For every constructed base DPG instance, the policy objective is the negated
  mean of the on-policy critic values, and the critic objective is the mean of the squared
  differences between the off-policy critic values and the targets.
\<close>

theorem C1_objectives:
  assumes "DPG_init m spec inputs0 q_targets0 tau0 noiser0 nm g = (Inr d, g')"
  shows "policy_objective d = Neg (ReduceMean (critic_on d) None) \<and>
         critic_objective d = ReduceMean (Square (Sub (critic_off d) (q_targets d))) None"
  using assms
  by (auto simp: DPG_init_def Let_def bind_Inr dest!: DPG_make_objectives_Inr)

theorem C1_objectives_witness:
  "\<exists>d g'. DPG_init \<lparr>state_dim = 4, action_dim = 2\<rparr> \<lparr>policy_dims = [8, 8], critic_dims = [8, 8]\<rparr>
             None None None None ''dpg'' empty_graph = (Inr d, g')
     \<and> policy_objective d = Neg (ReduceMean (critic_on d) None)
     \<and> critic_objective d = ReduceMean (Square (Sub (critic_off d) (q_targets d))) None"
  using succeedsD [OF base_instance] C1_objectives by blast

subsection \<open>The dimension assertion of the pointer network\<close>

text \<open>
  Claim C3. Constructing a PointerNetDPG whose \<open>state_dim\<close> differs from twice the first
  policy width fails with the assertion of the constructor, and the graph is what it was
  before the call: nothing has been created. When \<open>state_dim\<close> is twice the first policy
  width, the assertion passes and the construction is that of the base constructor with
  the methods of the class.
\<close>

theorem C3_dimension_assertion:
  assumes "policy_dims spec = d0 # ds"
  shows "(state_dim m \<noteq> 2 * d0 \<longrightarrow>
            PointerNetDPG_init m spec idim slen bn inputs0 q_targets0 tau0 noiser0 nm g =
              (Inl (AssertionError ''mdp.state_dim == spec.policy_dims[0] * 2''), g))
       \<and> (state_dim m = 2 * d0 \<longrightarrow>
            PointerNetDPG_init m spec idim slen bn inputs0 q_targets0 tau0 noiser0 nm g =
              PointerNetDPG_construct m spec idim slen bn inputs0 q_targets0 tau0 noiser0 nm g)"
  using assms
  by (auto simp: PointerNetDPG_init_def bind_def py_assert_def ret_def raise_def)

theorem C3_dimension_assertion_witness:
  "PointerNetDPG_init \<lparr>state_dim = 5, action_dim = 1\<rparr> \<lparr>policy_dims = [3], critic_dims = []\<rparr>
      1 5 False None None None None ''dpg'' empty_graph =
     (Inl (AssertionError ''mdp.state_dim == spec.policy_dims[0] * 2''), empty_graph)
   \<and> PointerNetDPG_init \<lparr>state_dim = 6, action_dim = 1\<rparr> \<lparr>policy_dims = [3], critic_dims = []\<rparr>
      1 5 False None None None None ''dpg'' empty_graph =
     PointerNetDPG_construct \<lparr>state_dim = 6, action_dim = 1\<rparr> \<lparr>policy_dims = [3], critic_dims = []\<rparr>
      1 5 False None None None None ''dpg'' empty_graph"
  using C3_dimension_assertion [of "\<lparr>policy_dims = [3], critic_dims = []\<rparr>" 3 "[]"
          "\<lparr>state_dim = 5, action_dim = 1\<rparr>" 1 5 False None None None None "''dpg''" empty_graph]
        C3_dimension_assertion [of "\<lparr>policy_dims = [3], critic_dims = []\<rparr>" 3 "[]"
          "\<lparr>state_dim = 6, action_dim = 1\<rparr>" 1 5 False None None None None "''dpg''" empty_graph]
  by simp

subsection \<open>Abstract methods\<close>

text \<open>
  Claim C4. The feedback function of RecurrentDPG and the action hardening of RecurrentDPG
  and of PointerNetDPG raise the error "not implemented" whenever they are called, and
  leave the graph as it was. A RecurrentDPG built with the feedback function of the class
  itself never constructs: the construction always ends in an error, which is the error
  "not implemented" as soon as the policy has a first hidden width.
\<close>

theorem C4_abstract_methods:
  "RecurrentDPG_loop_function g = (Inl (NotImplementedError ''abstract method''), g)
   \<and> (RecurrentDPG_harden_actions (action_list :: real list list list) :: unit build) g
        = (Inl (NotImplementedError ''abstract method''), g)
   \<and> (PointerNetDPG_harden_actions (action_list :: real list list list) :: unit build) g
        = (Inl (NotImplementedError ''abstract method''), g)
   \<and> (\<exists>e. fst (RecurrentDPG_init RecurrentDPG_loop_function m spec idim vsize slen
                 inputs0 q_targets0 tau0 noiser0 nm g) = Inl e)
   \<and> (policy_dims spec \<noteq> [] \<longrightarrow>
        fst (RecurrentDPG_init RecurrentDPG_loop_function m spec idim vsize slen
               inputs0 q_targets0 tau0 noiser0 nm g) = Inl (NotImplementedError ''abstract method''))"
proof -
  have lf: "RecurrentDPG_loop_function h = (Inl (NotImplementedError ''abstract method''), h)" for h
    by (simp add: RecurrentDPG_loop_function_def raise_def)
  have mg: "\<exists>e. fst (RecurrentDPG_make_graph sc RecurrentDPG_loop_function nz m spec idim slen inp dsi h) = Inl e
            \<and> (policy_dims spec \<noteq> [] \<longrightarrow> e = NotImplementedError ''abstract method'')" for sc nz inp dsi h
    by (cases "policy_dims spec") (simp_all add: RecurrentDPG_make_graph_def bind_def lf Let_def)
  have mi: "(\<exists>e h'. RecurrentDPG_make_inputs m spec idim inputs0 q_targets0 tau0 h = (Inl e, h')
                \<and> policy_dims spec = [])
          \<or> (\<exists>x h'. RecurrentDPG_make_inputs m spec idim inputs0 q_targets0 tau0 h = (Inr x, h'))" for h
    by (cases "policy_dims spec")
       (auto simp: RecurrentDPG_make_inputs_def bind_def or_placeholder_def placeholder_def ret_def
             split: option.splits)
  have init: "\<exists>e. fst (RecurrentDPG_init RecurrentDPG_loop_function m spec idim vsize slen
                 inputs0 q_targets0 tau0 noiser0 nm g) = Inl e
           \<and> (policy_dims spec \<noteq> [] \<longrightarrow> e = NotImplementedError ''abstract method'')"
    using mi [of g]
  proof
    assume "\<exists>e h'. RecurrentDPG_make_inputs m spec idim inputs0 q_targets0 tau0 g = (Inl e, h')
                \<and> policy_dims spec = []"
    then show ?thesis
      by (auto simp: RecurrentDPG_init_def Let_def bind_def DPG_make_params_def ret_def)
  next
    assume "\<exists>x h'. RecurrentDPG_make_inputs m spec idim inputs0 q_targets0 tau0 g = (Inr x, h')"
    then obtain x h' where x: "RecurrentDPG_make_inputs m spec idim inputs0 q_targets0 tau0 g = (Inr x, h')"
      by blast
    obtain inp q t dsi dai where xs: "x = (inp, q, t, dsi, dai)" by (cases x) auto
    obtain e where e: "fst (RecurrentDPG_make_graph (variable_scope root_scope nm None)
          RecurrentDPG_loop_function (case noiser0 of None \<Rightarrow> gaussian 0.1 | Some f \<Rightarrow> f)
          m spec idim slen inp dsi h') = Inl e"
       "policy_dims spec \<noteq> [] \<longrightarrow> e = NotImplementedError ''abstract method''"
      using mg by blast
    show ?thesis
      using x xs e
      by (auto simp: RecurrentDPG_init_def Let_def bind_def DPG_make_params_def ret_def
               split: prod.splits sum.splits)
  qed
  show ?thesis
    using init lf
    by (auto simp: RecurrentDPG_harden_actions_def PointerNetDPG_harden_actions_def raise_def)
qed

theorem C4_abstract_methods_witness:
  "fst (RecurrentDPG_init RecurrentDPG_loop_function \<lparr>state_dim = 3, action_dim = 1\<rparr>
          \<lparr>policy_dims = [3], critic_dims = []\<rparr> 1 1 1 None None None None ''dpg'' empty_graph)
     = Inl (NotImplementedError ''abstract method'')"
  using C4_abstract_methods [of empty_graph "[]" "\<lparr>state_dim = 3, action_dim = 1\<rparr>"
          "\<lparr>policy_dims = [3], critic_dims = []\<rparr>" 1 1 1 None None None None "''dpg''"]
  by simp

lemma pointer_states_map:
  "map (\<lambda>(s, a). F s a) (zip (pointer_critic_states di ds) acts)
     = map (\<lambda>((x, h), a). F (Concat 1 [x, h]) a) (zip (zip di ds) acts)"
  by (simp add: pointer_critic_states_def zip_map1 case_prod_unfold)

subsection \<open>No target tracking in the sequence variants\<close>

text \<open>
  Claim C6. In the recurrent and the pointer-network variant \<open>_make_updates\<close> does nothing:
  it returns with the graph unchanged, no variable is created or modified, and a
  constructed instance has no tracking update. The base learner builds one grouped
  operation of two parts: the tracking update from the scope \<open>name/policy\<close> to the scope
  \<open>name/policy_track\<close> and the one from \<open>name/critic\<close> to \<open>name/critic_track\<close>, both at
  the rate \<open>tau\<close> of the instance; each part moves, for every variable of the live scope,
  the tracked variable of the same name towards it.
\<close>

theorem C6_no_tracking_update:
  "RecurrentDPG_make_updates tu g = (Inr tu, g)
   \<and> PointerNetDPG_make_updates tu g = (Inr tu, g)
   \<and> (RecurrentDPG_init lfm m spec idim vsize slen inputs0 q_targets0 tau0 noiser0 nm g = (Inr rd, g1)
        \<longrightarrow> r_track_update rd = None)
   \<and> (PointerNetDPG_init m spec idim slen bn pinputs0 pq_targets0 tau0 noiser0 nm g = (Inr pd, g2)
        \<longrightarrow> p_track_update pd = None)
   \<and> (DPG_init m spec inputs0 q_targets0 tau0 noiser0 nm g = (Inr d, g3)
        \<longrightarrow> track_update d =
              Some (Group [Group (tracking_ops (variables g3) (nm @ ''/policy'')
                                    (nm @ ''/policy_track'') (tau d)),
                           Group (tracking_ops (variables g3) (nm @ ''/critic'')
                                    (nm @ ''/critic_track'') (tau d))]))"
  using RecurrentDPG_init_Inr PointerNetDPG_init_Inr DPG_init_track_update
  by (simp add: RecurrentDPG_make_updates_def PointerNetDPG_make_updates_def ret_def)

theorem C6_no_tracking_update_witness:
  "(\<exists>rd g1. RecurrentDPG_init (ret (\<lambda>x t. ret x)) \<lparr>state_dim = 3, action_dim = 1\<rparr>
       \<lparr>policy_dims = [3], critic_dims = []\<rparr> 1 1 1 None None None None ''dpg'' empty_graph = (Inr rd, g1)
       \<and> r_track_update rd = None)
   \<and> (\<exists>pd g2. PointerNetDPG_init \<lparr>state_dim = 6, action_dim = 1\<rparr> \<lparr>policy_dims = [3], critic_dims = []\<rparr>
       1 1 True None None None None ''dpg'' empty_graph = (Inr pd, g2) \<and> p_track_update pd = None)
   \<and> (\<exists>d g3. DPG_init \<lparr>state_dim = 4, action_dim = 2\<rparr> \<lparr>policy_dims = [8, 8], critic_dims = [8, 8]\<rparr>
       None None None None ''dpg'' empty_graph = (Inr d, g3)
       \<and> track_update d = Some (Group
      [Group
        [Assign ''dpg/policy_track/W0:0''
          (Add (Variable ''dpg/policy_track/W0:0'')
            (Mul (Placeholder 2 ''tau'' [Some 1])
              (Sub (Variable ''dpg/policy/W0:0'') (Variable ''dpg/policy_track/W0:0'')))),
         Assign ''dpg/policy_track/b0:0''
          (Add (Variable ''dpg/policy_track/b0:0'')
            (Mul (Placeholder 2 ''tau'' [Some 1])
              (Sub (Variable ''dpg/policy/b0:0'') (Variable ''dpg/policy_track/b0:0'')))),
         Assign ''dpg/policy_track/W1:0''
          (Add (Variable ''dpg/policy_track/W1:0'')
            (Mul (Placeholder 2 ''tau'' [Some 1])
              (Sub (Variable ''dpg/policy/W1:0'') (Variable ''dpg/policy_track/W1:0'')))),
         Assign ''dpg/policy_track/b1:0''
          (Add (Variable ''dpg/policy_track/b1:0'')
            (Mul (Placeholder 2 ''tau'' [Some 1])
              (Sub (Variable ''dpg/policy/b1:0'') (Variable ''dpg/policy_track/b1:0'')))),
         Assign ''dpg/policy_track/W2:0''
          (Add (Variable ''dpg/policy_track/W2:0'')
            (Mul (Placeholder 2 ''tau'' [Some 1])
              (Sub (Variable ''dpg/policy/W2:0'') (Variable ''dpg/policy_track/W2:0''))))],
       Group
        [Assign ''dpg/critic_track/W0:0''
          (Add (Variable ''dpg/critic_track/W0:0'')
            (Mul (Placeholder 2 ''tau'' [Some 1])
              (Sub (Variable ''dpg/critic/W0:0'') (Variable ''dpg/critic_track/W0:0'')))),
         Assign ''dpg/critic_track/b0:0''
          (Add (Variable ''dpg/critic_track/b0:0'')
            (Mul (Placeholder 2 ''tau'' [Some 1])
              (Sub (Variable ''dpg/critic/b0:0'') (Variable ''dpg/critic_track/b0:0'')))),
         Assign ''dpg/critic_track/W1:0''
          (Add (Variable ''dpg/critic_track/W1:0'')
            (Mul (Placeholder 2 ''tau'' [Some 1])
              (Sub (Variable ''dpg/critic/W1:0'') (Variable ''dpg/critic_track/W1:0'')))),
         Assign ''dpg/critic_track/b1:0''
          (Add (Variable ''dpg/critic_track/b1:0'')
            (Mul (Placeholder 2 ''tau'' [Some 1])
              (Sub (Variable ''dpg/critic/b1:0'') (Variable ''dpg/critic_track/b1:0'')))),
         Assign ''dpg/critic_track/W2:0''
          (Add (Variable ''dpg/critic_track/W2:0'')
            (Mul (Placeholder 2 ''tau'' [Some 1])
              (Sub (Variable ''dpg/critic/W2:0'') (Variable ''dpg/critic_track/W2:0'')))),
         Assign ''dpg/critic_track/b2:0''
          (Add (Variable ''dpg/critic_track/b2:0'')
            (Mul (Placeholder 2 ''tau'' [Some 1])
              (Sub (Variable ''dpg/critic/b2:0'') (Variable ''dpg/critic_track/b2:0''))))]]))"
proof -
  obtain rd g1 where r: "RecurrentDPG_init (ret (\<lambda>x t. ret x)) \<lparr>state_dim = 3, action_dim = 1\<rparr>
       \<lparr>policy_dims = [3], critic_dims = []\<rparr> 1 1 1 None None None None ''dpg'' empty_graph = (Inr rd, g1)"
    using succeedsD [OF recurrent_instance] by blast
  obtain pd g2 where p: "PointerNetDPG_init \<lparr>state_dim = 6, action_dim = 1\<rparr> \<lparr>policy_dims = [3], critic_dims = []\<rparr>
       1 1 True None None None None ''dpg'' empty_graph = (Inr pd, g2)"
    using succeedsD [OF pointer_instance] by blast
  obtain d g3 where b: "DPG_init \<lparr>state_dim = 4, action_dim = 2\<rparr> \<lparr>policy_dims = [8, 8], critic_dims = [8, 8]\<rparr>
       None None None None ''dpg'' empty_graph = (Inr d, g3)"
    using succeedsD [OF base_instance] by blast
  from base_tau_variables b have tv: "tau d = Placeholder 2 ''tau'' [Some 1]"
     "variables g3 = [''dpg/policy/W0:0'', ''dpg/policy/b0:0'', ''dpg/policy/W1:0'',
        ''dpg/policy/b1:0'', ''dpg/policy/W2:0'', ''dpg/critic/W0:0'',
        ''dpg/critic/b0:0'', ''dpg/critic/W1:0'', ''dpg/critic/b1:0'',
        ''dpg/critic/W2:0'', ''dpg/critic/b2:0'', ''dpg/policy_track/W0:0'',
        ''dpg/policy_track/b0:0'', ''dpg/policy_track/W1:0'',
        ''dpg/policy_track/b1:0'', ''dpg/policy_track/W2:0'',
        ''dpg/critic_track/W0:0'', ''dpg/critic_track/b0:0'',
        ''dpg/critic_track/W1:0'', ''dpg/critic_track/b1:0'',
        ''dpg/critic_track/W2:0'', ''dpg/critic_track/b2:0'']"
    by (simp_all add: tau_and_variables_def)
  have "r_track_update rd = None"
    by (rule C6_no_tracking_update [THEN conjunct2, THEN conjunct2, THEN conjunct1, THEN mp, OF r])
  moreover have "p_track_update pd = None"
    by (rule C6_no_tracking_update [THEN conjunct2, THEN conjunct2, THEN conjunct2, THEN conjunct1,
          THEN mp, OF p])
  moreover have "track_update d =
              Some (Group [Group (tracking_ops (variables g3) (''dpg'' @ ''/policy'')
                                    (''dpg'' @ ''/policy_track'') (tau d)),
                           Group (tracking_ops (variables g3) (''dpg'' @ ''/critic'')
                                    (''dpg'' @ ''/critic_track'') (tau d))])"
    by (rule C6_no_tracking_update [THEN conjunct2, THEN conjunct2, THEN conjunct2, THEN conjunct2,
          THEN mp, OF b])
  ultimately show ?thesis using r p b unfolding tv
    by (simp add: tracking_ops_def)
qed

subsection \<open>The state given to the critic of the pointer network\<close>

text \<open>
  Against claim C8 as stated: the critic of a timestep is not evaluated on the
  concatenation with the hidden state first. The source concatenates the decoder input
  and then the decoder state.
\<close>

theorem C8_critic_state_counterexample:
  "fst (PointerNetDPG_critic dpg_scope small_mdp small_spec
          [Placeholder 0 ''decoder_input'' []] [Placeholder 1 ''decoder_state'' []]
          [Placeholder 2 ''action'' []] None empty_graph)
     = Inr [critic_fn dpg_scope small_mdp small_spec
              (Concat 1 [Placeholder 0 ''decoder_input'' [], Placeholder 1 ''decoder_state'' []])
              (Placeholder 2 ''action'' [])]
   \<and> fst (PointerNetDPG_critic dpg_scope small_mdp small_spec
          [Placeholder 0 ''decoder_input'' []] [Placeholder 1 ''decoder_state'' []]
          [Placeholder 2 ''action'' []] None empty_graph)
     \<noteq> Inr [critic_fn dpg_scope small_mdp small_spec
              (claimed_critic_state (Placeholder 1 ''decoder_state'' []) (Placeholder 0 ''decoder_input'' []))
              (Placeholder 2 ''action'' [])]"
  by code_simp

text \<open>
  Claim C8, amended. In a constructed PointerNetDPG the critic of every timestep, on the
  predicted and on the exploratory actions, is evaluated on the concatenation along the
  feature axis of that timestep's decoder input and that timestep's decoder hidden state,
  the input first and the hidden state second; it is not evaluated on the hidden state
  alone.
\<close>

theorem C8_critic_state:
  assumes "PointerNetDPG_init m spec idim slen bn inputs0 q_targets0 tau0 noiser0 nm g = (Inr d, g')"
  shows "p_critic_on d =
           map (\<lambda>((inputs_t, states_t), actions_t).
                  critic_fn (variable_scope root_scope nm None) m spec
                    (Concat 1 [inputs_t, states_t]) actions_t)
               (zip (zip (p_decoder_inputs d) (p_decoder_states d)) (p_a_pred d))
       \<and> (\<exists>a_explore. p_a_explore d = Many a_explore \<and>
          p_critic_off d =
           map (\<lambda>((inputs_t, states_t), actions_t).
                  critic_fn (variable_scope root_scope nm None) m spec
                    (Concat 1 [inputs_t, states_t]) actions_t)
               (zip (zip (p_decoder_inputs d) (p_decoder_states d)) a_explore))"
proof -
  from PointerNetDPG_init_Inr [OF assms] obtain bnp inps g1 g2 q where
    "PointerNetDPG_make_graph (variable_scope root_scope nm None)
        (case noiser0 of None \<Rightarrow> gaussian 0.1 | Some f \<Rightarrow> f) m spec slen bnp inps q_targets0 g1
       = (Inr (p_encoder_states d, p_decoder_inputs d, p_decoder_states d, p_a_pred d, p_a_explore d,
               p_critic_on d, p_critic_off d, q), g2)"
    by blast
  from PointerNetDPG_make_graph_Inr [OF this] show ?thesis
    by (simp add: pointer_states_map)
qed

theorem C8_critic_state_witness:
  "\<exists>d g' a_explore. PointerNetDPG_init \<lparr>state_dim = 6, action_dim = 1\<rparr> \<lparr>policy_dims = [3], critic_dims = []\<rparr>
       1 1 True None None None None ''dpg'' empty_graph = (Inr d, g')
    \<and> p_critic_on d =
           map (\<lambda>((inputs_t, states_t), actions_t).
                  critic_fn (variable_scope root_scope ''dpg'' None) \<lparr>state_dim = 6, action_dim = 1\<rparr>
                    \<lparr>policy_dims = [3], critic_dims = []\<rparr> (Concat 1 [inputs_t, states_t]) actions_t)
               (zip (zip (p_decoder_inputs d) (p_decoder_states d)) (p_a_pred d))
    \<and> p_a_explore d = Many a_explore
    \<and> p_critic_off d =
           map (\<lambda>((inputs_t, states_t), actions_t).
                  critic_fn (variable_scope root_scope ''dpg'' None) \<lparr>state_dim = 6, action_dim = 1\<rparr>
                    \<lparr>policy_dims = [3], critic_dims = []\<rparr> (Concat 1 [inputs_t, states_t]) actions_t)
               (zip (zip (p_decoder_inputs d) (p_decoder_states d)) a_explore)"
proof -
  obtain pd g2 where p: "PointerNetDPG_init \<lparr>state_dim = 6, action_dim = 1\<rparr> \<lparr>policy_dims = [3], critic_dims = []\<rparr>
       1 1 True None None None None ''dpg'' empty_graph = (Inr pd, g2)"
    using succeedsD [OF pointer_instance] by blast
  from C8_critic_state [OF p] p show ?thesis by blast
qed

subsection \<open>One critic for every evaluation\<close>

lemma critic_first_timestep:
  assumes "RecurrentDPG_critic sc m spec (s # sts) (a # acts) reuse g = (Inr scores, g')"
  shows "\<exists>y. critic_model sc s a m spec ''critic'' (if reuse = Some True then Some True else None) None g
           = (Inr y, g')"
proof -
  from assms obtain score g1 rest where
    c: "critic_model sc s a m spec ''critic'' (if reuse = Some True then Some True else None) None g
          = (Inr score, g1)" and
    r: "RecurrentDPG_critic_loop sc m spec reuse (Suc 0) (zip sts acts) g1 = (Inr rest, g')"
    by (auto simp: RecurrentDPG_critic_def bind_Inr)
  from RecurrentDPG_critic_loop_Inr [OF r] have "g' = g1" by simp
  with c show ?thesis by blast
qed

lemma pointer_critic_first_timestep:
  assumes "PointerNetDPG_critic sc m spec (x # di) (h # ds) (a # acts) reuse g = (Inr scores, g')"
  shows "\<exists>y. critic_model sc (Concat 1 [x, h]) a m spec ''critic''
                (if reuse = Some True then Some True else None) None g = (Inr y, g')"
proof -
  from assms obtain score g1 rest zs where
    c: "critic_model sc (Concat 1 [x, h]) a m spec ''critic''
          (if reuse = Some True then Some True else None) None g = (Inr score, g1)" and
    r: "PointerNetDPG_critic_loop sc m spec reuse (Suc 0) zs g1 = (Inr rest, g')"
    by (auto simp: PointerNetDPG_critic_def bind_Inr Let_def)
  from PointerNetDPG_critic_loop_Inr [OF r] have "g' = g1" by simp
  with c show ?thesis by blast
qed

lemma gaussian_Many:
  "gaussian sd inp (Many as) g = (Inr (Many res), g') \<Longrightarrow> length res = length as"
  using noise_gaussian_Many [of inp as sd g "Many res" g'] by (simp add: gaussian_def)

lemma critic_first_build:
  "succeeds (critic_model dpg_scope (Placeholder 0 ''s'' []) (Placeholder 1 ''a'' [])
               small_mdp small_spec ''critic'' None None empty_graph)"
  by code_simp

lemma pointer_critic_first_build:
  "succeeds (critic_model dpg_scope (Concat 1 [Placeholder 0 ''x'' [], Placeholder 1 ''h'' []])
               (Placeholder 2 ''a'' []) small_mdp small_spec ''critic'' None None empty_graph)
   \<and> snd (critic_model dpg_scope (Concat 1 [Placeholder 0 ''x'' [], Placeholder 1 ''h'' []])
               (Placeholder 2 ''a'' []) small_mdp small_spec ''critic'' None None empty_graph)
       = critic_graph"
  by code_simp

lemma recurrent_critic_first:
  "succeeds (RecurrentDPG_critic dpg_scope small_mdp small_spec
               [Placeholder 0 ''s'' []] [Placeholder 1 ''a'' []] None empty_graph)"
  by code_simp

lemma recurrent_critic_reuse:
  "succeeds (RecurrentDPG_critic dpg_scope small_mdp small_spec
               [Placeholder 0 ''s'' []] [Placeholder 1 ''a'' []] (Some True) critic_graph)"
  by code_simp

lemma pointer_critic_first:
  "succeeds (PointerNetDPG_critic dpg_scope small_mdp small_spec
               [Placeholder 0 ''x'' []] [Placeholder 1 ''h'' []] [Placeholder 2 ''a'' []] None empty_graph)"
  by code_simp

lemma pointer_critic_reuse:
  "succeeds (PointerNetDPG_critic dpg_scope small_mdp small_spec
               [Placeholder 0 ''x'' []] [Placeholder 1 ''h'' []] [Placeholder 2 ''a'' []] (Some True)
               critic_graph)"
  by code_simp

text \<open>
  Claim C2. Within one instance every critic evaluation is the one function \<open>critic_fn\<close>
  of the instance's critic scope, whose parameters are the variables of that scope: in
  the base graph \<open>critic_on\<close> and \<open>critic_off\<close> are that function at \<open>(inputs, a_pred)\<close>
  and at \<open>(inputs, a_explore)\<close>; in the sequence variants there is one evaluation for
  every one of the \<open>seq_length\<close> timesteps, on the on-policy and on the exploratory
  branch, and each is that function at the timestep's state and action; the single-step
  handles \<open>critic_on\<close> and \<open>critic_off\<close> of the recurrent variant are that function too.
  The critic is established at the first timestep and reused afterwards: as soon as the
  critic of the first timestep can be built, the whole on-policy pass over any number of
  timesteps succeeds and leaves the graph that the first timestep alone leaves, and every
  later evaluation under reuse, of a whole exploratory pass or of one critic, succeeds
  and leaves the graph unchanged.
\<close>

theorem C2_critic_parameters_shared:
  "(DPG_init m spec inputs0 q_targets0 tau0 noiser0 nm g = (Inr d, g1) \<longrightarrow>
      critic_on d = critic_fn (variable_scope root_scope nm None) m spec (inputs d) (a_pred d)
      \<and> (\<exists>a_expl. a_explore d = One a_expl
            \<and> critic_off d = critic_fn (variable_scope root_scope nm None) m spec (inputs d) a_expl))
   \<and> (RecurrentDPG_init lfm m spec idim vsize slen inputs0 q_targets0 tau0 noiser0 nm g = (Inr rd, g2) \<longrightarrow>
      r_critic_on_seq rd =
        map (\<lambda>(states_t, actions_t). critic_fn (variable_scope root_scope nm None) m spec states_t actions_t)
            (zip (r_decoder_states rd) (r_a_pred rd))
      \<and> (\<exists>a_expl. r_a_explore rd = Many a_expl \<and> r_critic_off_seq rd =
        map (\<lambda>(states_t, actions_t). critic_fn (variable_scope root_scope nm None) m spec states_t actions_t)
            (zip (r_decoder_states rd) a_expl)
          \<and> (noiser0 = None \<longrightarrow> length a_expl = slen))
      \<and> length (r_decoder_states rd) = slen \<and> length (r_a_pred rd) = slen
      \<and> length (r_critic_on_seq rd) = slen
      \<and> r_critic_on rd = critic_fn (variable_scope root_scope nm None) m spec (r_decoder_state_ind rd)
            (policy_cell_fn (variable_scope root_scope nm None) m spec (r_inputs rd) (r_decoder_state_ind rd))
      \<and> (\<exists>a_explore_ind. r_critic_off rd =
            critic_fn (variable_scope root_scope nm None) m spec (r_decoder_state_ind rd) a_explore_ind))
   \<and> (PointerNetDPG_init m spec idim slen bn pinputs0 pq_targets0 tau0 noiser0 nm g = (Inr pd, g3) \<longrightarrow>
      p_critic_on pd =
        map (\<lambda>(states_t, actions_t). critic_fn (variable_scope root_scope nm None) m spec states_t actions_t)
            (zip (pointer_critic_states (p_decoder_inputs pd) (p_decoder_states pd)) (p_a_pred pd))
      \<and> (\<exists>a_expl. p_a_explore pd = Many a_expl \<and> p_critic_off pd =
        map (\<lambda>(states_t, actions_t). critic_fn (variable_scope root_scope nm None) m spec states_t actions_t)
            (zip (pointer_critic_states (p_decoder_inputs pd) (p_decoder_states pd)) a_expl)
          \<and> (noiser0 = None \<longrightarrow> length a_expl = slen))
      \<and> length (p_decoder_inputs pd) = slen \<and> length (p_decoder_states pd) = slen
      \<and> length (p_a_pred pd) = slen \<and> length (p_critic_on pd) = slen)
   \<and> (RecurrentDPG_critic sc m spec (s # sts) (a # acts) None g = (Inr scores, g4) \<longrightarrow>
        (\<exists>y. critic_model sc s a m spec ''critic'' None None g = (Inr y, g4)))
   \<and> (RecurrentDPG_critic sc m spec sts acts (Some True) g = (Inr scores, g5) \<longrightarrow> g5 = g)
   \<and> (PointerNetDPG_critic sc m spec (x # di) (h # ds) (a # acts) None g = (Inr scores, g6) \<longrightarrow>
        (\<exists>y. critic_model sc (Concat 1 [x, h]) a m spec ''critic'' None None g = (Inr y, g6)))
   \<and> (PointerNetDPG_critic sc m spec di ds acts (Some True) g = (Inr scores, g7) \<longrightarrow> g7 = g)
   \<and> (critic_model sc s a m spec ''critic'' None None g = (Inr y1, g8) \<longrightarrow>
        RecurrentDPG_critic sc m spec (s # sts) (a # acts) None g
          = (Inr (map (\<lambda>(states_t, actions_t). critic_fn sc m spec states_t actions_t)
                    (zip (s # sts) (a # acts))), g8)
        \<and> RecurrentDPG_critic sc m spec sts2 acts2 (Some True) g8
          = (Inr (map (\<lambda>(states_t, actions_t). critic_fn sc m spec states_t actions_t)
                    (zip sts2 acts2)), g8)
        \<and> critic_model sc s2 a2 m spec ''critic'' (Some True) None g8
          = (Inr (critic_fn sc m spec s2 a2), g8))
   \<and> (critic_model sc (Concat 1 [x, h]) a m spec ''critic'' None None g = (Inr y2, g9) \<longrightarrow>
        PointerNetDPG_critic sc m spec (x # di) (h # ds) (a # acts) None g
          = (Inr (map (\<lambda>(states_t, actions_t). critic_fn sc m spec states_t actions_t)
                    (zip (pointer_critic_states (x # di) (h # ds)) (a # acts))), g9)
        \<and> PointerNetDPG_critic sc m spec di2 ds2 acts2 (Some True) g9
          = (Inr (map (\<lambda>(states_t, actions_t). critic_fn sc m spec states_t actions_t)
                    (zip (pointer_critic_states di2 ds2) acts2)), g9))"
proof (intro conjI impI)
  assume a: "DPG_init m spec inputs0 q_targets0 tau0 noiser0 nm g = (Inr d, g1)"
  from DPG_init_Inr [OF a] DPG_make_graph_Inr
  show "critic_on d = critic_fn (variable_scope root_scope nm None) m spec (inputs d) (a_pred d)"
    by blast
  from DPG_init_Inr [OF a] DPG_make_graph_Inr
  show "\<exists>a_expl. a_explore d = One a_expl
            \<and> critic_off d = critic_fn (variable_scope root_scope nm None) m spec (inputs d) a_expl"
    by blast
next
  assume a: "RecurrentDPG_init lfm m spec idim vsize slen inputs0 q_targets0 tau0 noiser0 nm g = (Inr rd, g2)"
  from RecurrentDPG_init_Inr [OF a] obtain ga gb where
    mg: "RecurrentDPG_make_graph (variable_scope root_scope nm None) lfm
        (case noiser0 of None \<Rightarrow> gaussian 0.1 | Some f \<Rightarrow> f) m spec idim slen (r_inputs rd)
        (r_decoder_state_ind rd) ga
       = (Inr (r_a_pred rd, r_decoder_states rd, r_a_explore rd, r_critic_on_seq rd, r_critic_off_seq rd,
               r_critic_on rd, r_critic_off rd), gb)"
    by blast
  note sh = RecurrentDPG_make_graph_shape [OF mg]
  note gr = RecurrentDPG_make_graph_Inr [OF mg]
  from gr show on: "r_critic_on_seq rd =
        map (\<lambda>(states_t, actions_t). critic_fn (variable_scope root_scope nm None) m spec states_t actions_t)
            (zip (r_decoder_states rd) (r_a_pred rd))"
    by blast
  from gr obtain a_expl where ae: "r_a_explore rd = Many a_expl" and
    off: "r_critic_off_seq rd =
        map (\<lambda>(states_t, actions_t). critic_fn (variable_scope root_scope nm None) m spec states_t actions_t)
            (zip (r_decoder_states rd) a_expl)"
    by blast
  from sh obtain gc gd where
    nz: "(case noiser0 of None \<Rightarrow> gaussian 0.1 | Some f \<Rightarrow> f) (One (r_inputs rd)) (Many (r_a_pred rd)) gc
           = (Inr (r_a_explore rd), gd)"
    by blast
  from sh have len: "length (r_a_pred rd) = slen" "length (r_decoder_states rd) = slen"
    by blast+
  have "noiser0 = None \<longrightarrow> length a_expl = slen"
    using nz ae len gaussian_Many by fastforce
  with ae off show "\<exists>a_expl. r_a_explore rd = Many a_expl \<and> r_critic_off_seq rd =
        map (\<lambda>(states_t, actions_t). critic_fn (variable_scope root_scope nm None) m spec states_t actions_t)
            (zip (r_decoder_states rd) a_expl)
          \<and> (noiser0 = None \<longrightarrow> length a_expl = slen)"
    by blast
  from len show "length (r_decoder_states rd) = slen" "length (r_a_pred rd) = slen"
    by simp_all
  from on len show "length (r_critic_on_seq rd) = slen"
    by simp
  from sh show "r_critic_on rd = critic_fn (variable_scope root_scope nm None) m spec (r_decoder_state_ind rd)
            (policy_cell_fn (variable_scope root_scope nm None) m spec (r_inputs rd) (r_decoder_state_ind rd))"
    by blast
  from sh show "\<exists>a_explore_ind. r_critic_off rd =
            critic_fn (variable_scope root_scope nm None) m spec (r_decoder_state_ind rd) a_explore_ind"
    by blast
next
  assume a: "PointerNetDPG_init m spec idim slen bn pinputs0 pq_targets0 tau0 noiser0 nm g = (Inr pd, g3)"
  from PointerNetDPG_init_Inr [OF a] obtain bnp inps ga gb q where
    mg: "PointerNetDPG_make_graph (variable_scope root_scope nm None)
        (case noiser0 of None \<Rightarrow> gaussian 0.1 | Some f \<Rightarrow> f) m spec slen bnp inps pq_targets0 ga
       = (Inr (p_encoder_states pd, p_decoder_inputs pd, p_decoder_states pd, p_a_pred pd, p_a_explore pd,
               p_critic_on pd, p_critic_off pd, q), gb)"
    by blast
  note sh = PointerNetDPG_make_graph_shape [OF mg]
  note gr = PointerNetDPG_make_graph_Inr [OF mg]
  from gr show on: "p_critic_on pd =
        map (\<lambda>(states_t, actions_t). critic_fn (variable_scope root_scope nm None) m spec states_t actions_t)
            (zip (pointer_critic_states (p_decoder_inputs pd) (p_decoder_states pd)) (p_a_pred pd))"
    by blast
  from gr obtain a_expl where ae: "p_a_explore pd = Many a_expl" and
    off: "p_critic_off pd =
        map (\<lambda>(states_t, actions_t). critic_fn (variable_scope root_scope nm None) m spec states_t actions_t)
            (zip (pointer_critic_states (p_decoder_inputs pd) (p_decoder_states pd)) a_expl)"
    by blast
  from sh obtain gc gd where
    nz: "(case noiser0 of None \<Rightarrow> gaussian 0.1 | Some f \<Rightarrow> f) (Many inps) (Many (p_a_pred pd)) gc
           = (Inr (p_a_explore pd), gd)"
    by blast
  from sh have len: "length (p_decoder_inputs pd) = slen" "length (p_decoder_states pd) = slen"
    "length (p_a_pred pd) = slen"
    by blast+
  have "noiser0 = None \<longrightarrow> length a_expl = slen"
    using nz ae len gaussian_Many by fastforce
  with ae off show "\<exists>a_expl. p_a_explore pd = Many a_expl \<and> p_critic_off pd =
        map (\<lambda>(states_t, actions_t). critic_fn (variable_scope root_scope nm None) m spec states_t actions_t)
            (zip (pointer_critic_states (p_decoder_inputs pd) (p_decoder_states pd)) a_expl)
          \<and> (noiser0 = None \<longrightarrow> length a_expl = slen)"
    by blast
  from len show "length (p_decoder_inputs pd) = slen" "length (p_decoder_states pd) = slen"
    "length (p_a_pred pd) = slen"
    by simp_all
  from on len show "length (p_critic_on pd) = slen"
    by (simp add: pointer_critic_states_def)
next
  assume "RecurrentDPG_critic sc m spec (s # sts) (a # acts) None g = (Inr scores, g4)"
  from critic_first_timestep [OF this]
  show "\<exists>y. critic_model sc s a m spec ''critic'' None None g = (Inr y, g4)"
    by simp
next
  assume "RecurrentDPG_critic sc m spec sts acts (Some True) g = (Inr scores, g5)"
  from RecurrentDPG_critic_Inr [OF this] show "g5 = g" by simp
next
  assume "PointerNetDPG_critic sc m spec (x # di) (h # ds) (a # acts) None g = (Inr scores, g6)"
  from pointer_critic_first_timestep [OF this]
  show "\<exists>y. critic_model sc (Concat 1 [x, h]) a m spec ''critic'' None None g = (Inr y, g6)"
    by simp
next
  assume "PointerNetDPG_critic sc m spec di ds acts (Some True) g = (Inr scores, g7)"
  from PointerNetDPG_critic_Inr [OF this] show "g7 = g" by simp
next
  assume c: "critic_model sc s a m spec ''critic'' None None g = (Inr y1, g8)"
  from RecurrentDPG_critic_pass [OF c]
  show "RecurrentDPG_critic sc m spec (s # sts) (a # acts) None g
          = (Inr (map (\<lambda>(states_t, actions_t). critic_fn sc m spec states_t actions_t)
                    (zip (s # sts) (a # acts))), g8)" .
  from RecurrentDPG_critic_reuse [OF critic_model_first [OF c]]
  show "RecurrentDPG_critic sc m spec sts2 acts2 (Some True) g8
          = (Inr (map (\<lambda>(states_t, actions_t). critic_fn sc m spec states_t actions_t)
                    (zip sts2 acts2)), g8)" .
  from critic_model_reuse [OF critic_model_first [OF c]]
  show "critic_model sc s2 a2 m spec ''critic'' (Some True) None g8
          = (Inr (critic_fn sc m spec s2 a2), g8)" .
next
  assume c: "critic_model sc (Concat 1 [x, h]) a m spec ''critic'' None None g = (Inr y2, g9)"
  from PointerNetDPG_critic_pass [OF c]
  show "PointerNetDPG_critic sc m spec (x # di) (h # ds) (a # acts) None g
          = (Inr (map (\<lambda>(states_t, actions_t). critic_fn sc m spec states_t actions_t)
                    (zip (pointer_critic_states (x # di) (h # ds)) (a # acts))), g9)" .
  from PointerNetDPG_critic_reuse [OF critic_model_first [OF c]]
  show "PointerNetDPG_critic sc m spec di2 ds2 acts2 (Some True) g9
          = (Inr (map (\<lambda>(states_t, actions_t). critic_fn sc m spec states_t actions_t)
                    (zip (pointer_critic_states di2 ds2) acts2)), g9)" .
qed


theorem C2_critic_parameters_shared_witness:
  "(\<exists>d g1 a_expl. DPG_init \<lparr>state_dim = 4, action_dim = 2\<rparr> \<lparr>policy_dims = [8, 8], critic_dims = [8, 8]\<rparr>
        None None None None ''dpg'' empty_graph = (Inr d, g1)
      \<and> critic_on d = critic_fn dpg_scope \<lparr>state_dim = 4, action_dim = 2\<rparr>
            \<lparr>policy_dims = [8, 8], critic_dims = [8, 8]\<rparr> (inputs d) (a_pred d)
      \<and> a_explore d = One a_expl
      \<and> critic_off d = critic_fn dpg_scope \<lparr>state_dim = 4, action_dim = 2\<rparr>
            \<lparr>policy_dims = [8, 8], critic_dims = [8, 8]\<rparr> (inputs d) a_expl)
   \<and> (\<exists>rd g2 a_expl a_explore_ind.
        RecurrentDPG_init (ret (\<lambda>x t. ret x)) \<lparr>state_dim = 3, action_dim = 1\<rparr>
        \<lparr>policy_dims = [3], critic_dims = []\<rparr> 1 1 2 None None None None ''dpg'' empty_graph = (Inr rd, g2)
      \<and> r_critic_on_seq rd =
        map (\<lambda>(states_t, actions_t). critic_fn dpg_scope \<lparr>state_dim = 3, action_dim = 1\<rparr>
               \<lparr>policy_dims = [3], critic_dims = []\<rparr> states_t actions_t)
            (zip (r_decoder_states rd) (r_a_pred rd))
      \<and> r_a_explore rd = Many a_expl
      \<and> r_critic_off_seq rd =
        map (\<lambda>(states_t, actions_t). critic_fn dpg_scope \<lparr>state_dim = 3, action_dim = 1\<rparr>
               \<lparr>policy_dims = [3], critic_dims = []\<rparr> states_t actions_t)
            (zip (r_decoder_states rd) a_expl)
      \<and> length a_expl = 2 \<and> length (r_decoder_states rd) = 2 \<and> length (r_a_pred rd) = 2
      \<and> length (r_critic_on_seq rd) = 2
      \<and> r_critic_on rd = critic_fn dpg_scope \<lparr>state_dim = 3, action_dim = 1\<rparr>
            \<lparr>policy_dims = [3], critic_dims = []\<rparr> (r_decoder_state_ind rd)
            (policy_cell_fn dpg_scope \<lparr>state_dim = 3, action_dim = 1\<rparr>
               \<lparr>policy_dims = [3], critic_dims = []\<rparr> (r_inputs rd) (r_decoder_state_ind rd))
      \<and> r_critic_off rd = critic_fn dpg_scope \<lparr>state_dim = 3, action_dim = 1\<rparr>
            \<lparr>policy_dims = [3], critic_dims = []\<rparr> (r_decoder_state_ind rd) a_explore_ind)
   \<and> (\<exists>pd g3 a_expl. PointerNetDPG_init \<lparr>state_dim = 6, action_dim = 1\<rparr>
        \<lparr>policy_dims = [3], critic_dims = []\<rparr> 1 1 True None None None None ''dpg'' empty_graph = (Inr pd, g3)
      \<and> p_critic_on pd =
        map (\<lambda>(states_t, actions_t). critic_fn dpg_scope \<lparr>state_dim = 6, action_dim = 1\<rparr>
               \<lparr>policy_dims = [3], critic_dims = []\<rparr> states_t actions_t)
            (zip (pointer_critic_states (p_decoder_inputs pd) (p_decoder_states pd)) (p_a_pred pd))
      \<and> p_a_explore pd = Many a_expl
      \<and> p_critic_off pd =
        map (\<lambda>(states_t, actions_t). critic_fn dpg_scope \<lparr>state_dim = 6, action_dim = 1\<rparr>
               \<lparr>policy_dims = [3], critic_dims = []\<rparr> states_t actions_t)
            (zip (pointer_critic_states (p_decoder_inputs pd) (p_decoder_states pd)) a_expl)
      \<and> length a_expl = 1 \<and> length (p_decoder_inputs pd) = 1 \<and> length (p_decoder_states pd) = 1
      \<and> length (p_a_pred pd) = 1 \<and> length (p_critic_on pd) = 1)
   \<and> (\<exists>scores g4 y. RecurrentDPG_critic dpg_scope small_mdp small_spec
               [Placeholder 0 ''s'' []] [Placeholder 1 ''a'' []] None empty_graph = (Inr scores, g4)
      \<and> critic_model dpg_scope (Placeholder 0 ''s'' []) (Placeholder 1 ''a'' []) small_mdp small_spec
           ''critic'' None None empty_graph = (Inr y, g4))
   \<and> (\<exists>scores. RecurrentDPG_critic dpg_scope small_mdp small_spec
               [Placeholder 0 ''s'' []] [Placeholder 1 ''a'' []] (Some True) critic_graph
             = (Inr scores, critic_graph))
   \<and> (\<exists>scores g6 y. PointerNetDPG_critic dpg_scope small_mdp small_spec
               [Placeholder 0 ''x'' []] [Placeholder 1 ''h'' []] [Placeholder 2 ''a'' []] None empty_graph
             = (Inr scores, g6)
      \<and> critic_model dpg_scope (Concat 1 [Placeholder 0 ''x'' [], Placeholder 1 ''h'' []])
           (Placeholder 2 ''a'' []) small_mdp small_spec ''critic'' None None empty_graph = (Inr y, g6))
   \<and> (\<exists>scores. PointerNetDPG_critic dpg_scope small_mdp small_spec
               [Placeholder 0 ''x'' []] [Placeholder 1 ''h'' []] [Placeholder 2 ''a'' []] (Some True)
               critic_graph = (Inr scores, critic_graph))
   \<and> (RecurrentDPG_critic dpg_scope small_mdp small_spec
         [Placeholder 0 ''s'' [], Placeholder 2 ''s1'' [], Placeholder 4 ''s2'' []]
         [Placeholder 1 ''a'' [], Placeholder 3 ''a1'' [], Placeholder 5 ''a2'' []] None empty_graph
        = (Inr [critic_fn dpg_scope small_mdp small_spec (Placeholder 0 ''s'' []) (Placeholder 1 ''a'' []),
                critic_fn dpg_scope small_mdp small_spec (Placeholder 2 ''s1'' []) (Placeholder 3 ''a1'' []),
                critic_fn dpg_scope small_mdp small_spec (Placeholder 4 ''s2'' []) (Placeholder 5 ''a2'' [])],
           critic_graph)
      \<and> RecurrentDPG_critic dpg_scope small_mdp small_spec
         [Placeholder 0 ''s'' [], Placeholder 2 ''s1'' [], Placeholder 4 ''s2'' []]
         [Placeholder 6 ''e'' [], Placeholder 7 ''e1'' [], Placeholder 8 ''e2'' []] (Some True) critic_graph
        = (Inr [critic_fn dpg_scope small_mdp small_spec (Placeholder 0 ''s'' []) (Placeholder 6 ''e'' []),
                critic_fn dpg_scope small_mdp small_spec (Placeholder 2 ''s1'' []) (Placeholder 7 ''e1'' []),
                critic_fn dpg_scope small_mdp small_spec (Placeholder 4 ''s2'' []) (Placeholder 8 ''e2'' [])],
           critic_graph)
      \<and> critic_model dpg_scope (Placeholder 2 ''s1'' []) (Placeholder 7 ''e1'' []) small_mdp small_spec
           ''critic'' (Some True) None critic_graph
        = (Inr (critic_fn dpg_scope small_mdp small_spec (Placeholder 2 ''s1'' []) (Placeholder 7 ''e1'' [])),
           critic_graph))
   \<and> (PointerNetDPG_critic dpg_scope small_mdp small_spec
         [Placeholder 0 ''x'' [], Placeholder 3 ''x1'' []]
         [Placeholder 1 ''h'' [], Placeholder 4 ''h1'' []]
         [Placeholder 2 ''a'' [], Placeholder 5 ''a1'' []] None empty_graph
        = (Inr [critic_fn dpg_scope small_mdp small_spec
                  (Concat 1 [Placeholder 0 ''x'' [], Placeholder 1 ''h'' []]) (Placeholder 2 ''a'' []),
                critic_fn dpg_scope small_mdp small_spec
                  (Concat 1 [Placeholder 3 ''x1'' [], Placeholder 4 ''h1'' []]) (Placeholder 5 ''a1'' [])],
           critic_graph)
      \<and> PointerNetDPG_critic dpg_scope small_mdp small_spec
         [Placeholder 0 ''x'' [], Placeholder 3 ''x1'' []]
         [Placeholder 1 ''h'' [], Placeholder 4 ''h1'' []]
         [Placeholder 6 ''e'' [], Placeholder 7 ''e1'' []] (Some True) critic_graph
        = (Inr [critic_fn dpg_scope small_mdp small_spec
                  (Concat 1 [Placeholder 0 ''x'' [], Placeholder 1 ''h'' []]) (Placeholder 6 ''e'' []),
                critic_fn dpg_scope small_mdp small_spec
                  (Concat 1 [Placeholder 3 ''x1'' [], Placeholder 4 ''h1'' []]) (Placeholder 7 ''e1'' [])],
           critic_graph))"
proof -
  note C2 = C2_critic_parameters_shared
  obtain d g1 where b: "DPG_init \<lparr>state_dim = 4, action_dim = 2\<rparr> \<lparr>policy_dims = [8, 8], critic_dims = [8, 8]\<rparr>
       None None None None ''dpg'' empty_graph = (Inr d, g1)"
    using succeedsD [OF base_instance] by blast
  have 1: "\<exists>d g1 a_expl. DPG_init \<lparr>state_dim = 4, action_dim = 2\<rparr> \<lparr>policy_dims = [8, 8], critic_dims = [8, 8]\<rparr>
        None None None None ''dpg'' empty_graph = (Inr d, g1)
      \<and> critic_on d = critic_fn dpg_scope \<lparr>state_dim = 4, action_dim = 2\<rparr>
            \<lparr>policy_dims = [8, 8], critic_dims = [8, 8]\<rparr> (inputs d) (a_pred d)
      \<and> a_explore d = One a_expl
      \<and> critic_off d = critic_fn dpg_scope \<lparr>state_dim = 4, action_dim = 2\<rparr>
            \<lparr>policy_dims = [8, 8], critic_dims = [8, 8]\<rparr> (inputs d) a_expl"
    using C2 [THEN conjunct1, THEN mp, OF b] b unfolding dpg_scope_def by blast
  obtain rd g2 where ri: "RecurrentDPG_init (ret (\<lambda>x t. ret x)) \<lparr>state_dim = 3, action_dim = 1\<rparr>
        \<lparr>policy_dims = [3], critic_dims = []\<rparr> 1 1 2 None None None None ''dpg'' empty_graph = (Inr rd, g2)"
    using succeedsD [OF recurrent_instance2] by blast
  have 2: "\<exists>rd g2 a_expl a_explore_ind.
        RecurrentDPG_init (ret (\<lambda>x t. ret x)) \<lparr>state_dim = 3, action_dim = 1\<rparr>
        \<lparr>policy_dims = [3], critic_dims = []\<rparr> 1 1 2 None None None None ''dpg'' empty_graph = (Inr rd, g2)
      \<and> r_critic_on_seq rd =
        map (\<lambda>(states_t, actions_t). critic_fn dpg_scope \<lparr>state_dim = 3, action_dim = 1\<rparr>
               \<lparr>policy_dims = [3], critic_dims = []\<rparr> states_t actions_t)
            (zip (r_decoder_states rd) (r_a_pred rd))
      \<and> r_a_explore rd = Many a_expl
      \<and> r_critic_off_seq rd =
        map (\<lambda>(states_t, actions_t). critic_fn dpg_scope \<lparr>state_dim = 3, action_dim = 1\<rparr>
               \<lparr>policy_dims = [3], critic_dims = []\<rparr> states_t actions_t)
            (zip (r_decoder_states rd) a_expl)
      \<and> length a_expl = 2 \<and> length (r_decoder_states rd) = 2 \<and> length (r_a_pred rd) = 2
      \<and> length (r_critic_on_seq rd) = 2
      \<and> r_critic_on rd = critic_fn dpg_scope \<lparr>state_dim = 3, action_dim = 1\<rparr>
            \<lparr>policy_dims = [3], critic_dims = []\<rparr> (r_decoder_state_ind rd)
            (policy_cell_fn dpg_scope \<lparr>state_dim = 3, action_dim = 1\<rparr>
               \<lparr>policy_dims = [3], critic_dims = []\<rparr> (r_inputs rd) (r_decoder_state_ind rd))
      \<and> r_critic_off rd = critic_fn dpg_scope \<lparr>state_dim = 3, action_dim = 1\<rparr>
            \<lparr>policy_dims = [3], critic_dims = []\<rparr> (r_decoder_state_ind rd) a_explore_ind"
    using C2 [THEN conjunct2, THEN conjunct1, THEN mp, OF ri] ri unfolding dpg_scope_def by blast
  obtain pd g3 where pi: "PointerNetDPG_init \<lparr>state_dim = 6, action_dim = 1\<rparr>
        \<lparr>policy_dims = [3], critic_dims = []\<rparr> 1 1 True None None None None ''dpg'' empty_graph = (Inr pd, g3)"
    using succeedsD [OF pointer_instance] by blast
  have 3: "\<exists>pd g3 a_expl. PointerNetDPG_init \<lparr>state_dim = 6, action_dim = 1\<rparr>
        \<lparr>policy_dims = [3], critic_dims = []\<rparr> 1 1 True None None None None ''dpg'' empty_graph = (Inr pd, g3)
      \<and> p_critic_on pd =
        map (\<lambda>(states_t, actions_t). critic_fn dpg_scope \<lparr>state_dim = 6, action_dim = 1\<rparr>
               \<lparr>policy_dims = [3], critic_dims = []\<rparr> states_t actions_t)
            (zip (pointer_critic_states (p_decoder_inputs pd) (p_decoder_states pd)) (p_a_pred pd))
      \<and> p_a_explore pd = Many a_expl
      \<and> p_critic_off pd =
        map (\<lambda>(states_t, actions_t). critic_fn dpg_scope \<lparr>state_dim = 6, action_dim = 1\<rparr>
               \<lparr>policy_dims = [3], critic_dims = []\<rparr> states_t actions_t)
            (zip (pointer_critic_states (p_decoder_inputs pd) (p_decoder_states pd)) a_expl)
      \<and> length a_expl = 1 \<and> length (p_decoder_inputs pd) = 1 \<and> length (p_decoder_states pd) = 1
      \<and> length (p_a_pred pd) = 1 \<and> length (p_critic_on pd) = 1"
    using C2 [THEN conjunct2, THEN conjunct2, THEN conjunct1, THEN mp, OF pi] pi
    unfolding dpg_scope_def by blast
  obtain sc1 h1 where r1: "RecurrentDPG_critic dpg_scope small_mdp small_spec
               [Placeholder 0 ''s'' []] [Placeholder 1 ''a'' []] None empty_graph = (Inr sc1, h1)"
    using succeedsD [OF recurrent_critic_first] by blast
  have 4: "\<exists>scores g4 y. RecurrentDPG_critic dpg_scope small_mdp small_spec
               [Placeholder 0 ''s'' []] [Placeholder 1 ''a'' []] None empty_graph = (Inr scores, g4)
      \<and> critic_model dpg_scope (Placeholder 0 ''s'' []) (Placeholder 1 ''a'' []) small_mdp small_spec
           ''critic'' None None empty_graph = (Inr y, g4)"
    using C2 [THEN conjunct2, THEN conjunct2, THEN conjunct2, THEN conjunct1, THEN mp, OF r1] r1
    by blast
  obtain sc2 h2 where r2: "RecurrentDPG_critic dpg_scope small_mdp small_spec
               [Placeholder 0 ''s'' []] [Placeholder 1 ''a'' []] (Some True) critic_graph = (Inr sc2, h2)"
    using succeedsD [OF recurrent_critic_reuse] by blast
  have 5: "\<exists>scores. RecurrentDPG_critic dpg_scope small_mdp small_spec
               [Placeholder 0 ''s'' []] [Placeholder 1 ''a'' []] (Some True) critic_graph
             = (Inr scores, critic_graph)"
    using C2 [THEN conjunct2, THEN conjunct2, THEN conjunct2, THEN conjunct2, THEN conjunct1,
              THEN mp, OF r2] r2
    by blast
  obtain sc3 h3 where r3: "PointerNetDPG_critic dpg_scope small_mdp small_spec
               [Placeholder 0 ''x'' []] [Placeholder 1 ''h'' []] [Placeholder 2 ''a'' []] None empty_graph
             = (Inr sc3, h3)"
    using succeedsD [OF pointer_critic_first] by blast
  have 6: "\<exists>scores g6 y. PointerNetDPG_critic dpg_scope small_mdp small_spec
               [Placeholder 0 ''x'' []] [Placeholder 1 ''h'' []] [Placeholder 2 ''a'' []] None empty_graph
             = (Inr scores, g6)
      \<and> critic_model dpg_scope (Concat 1 [Placeholder 0 ''x'' [], Placeholder 1 ''h'' []])
           (Placeholder 2 ''a'' []) small_mdp small_spec ''critic'' None None empty_graph = (Inr y, g6)"
    using C2 [THEN conjunct2, THEN conjunct2, THEN conjunct2, THEN conjunct2, THEN conjunct2,
              THEN conjunct1, THEN mp, OF r3] r3
    by blast
  obtain sc4 h4 where r4: "PointerNetDPG_critic dpg_scope small_mdp small_spec
               [Placeholder 0 ''x'' []] [Placeholder 1 ''h'' []] [Placeholder 2 ''a'' []] (Some True)
               critic_graph = (Inr sc4, h4)"
    using succeedsD [OF pointer_critic_reuse] by blast
  have 7: "\<exists>scores. PointerNetDPG_critic dpg_scope small_mdp small_spec
               [Placeholder 0 ''x'' []] [Placeholder 1 ''h'' []] [Placeholder 2 ''a'' []] (Some True)
               critic_graph = (Inr scores, critic_graph)"
    using C2 [THEN conjunct2, THEN conjunct2, THEN conjunct2, THEN conjunct2, THEN conjunct2,
              THEN conjunct2, THEN conjunct1, THEN mp, OF r4] r4
    by blast
  obtain y1 k1 where c1: "critic_model dpg_scope (Placeholder 0 ''s'' []) (Placeholder 1 ''a'' [])
               small_mdp small_spec ''critic'' None None empty_graph = (Inr y1, k1)"
    using succeedsD [OF critic_first_build] by blast
  then have k1: "k1 = critic_graph"
    by (simp add: critic_graph_def)
  note u1 = C2 [THEN conjunct2, THEN conjunct2, THEN conjunct2, THEN conjunct2, THEN conjunct2,
              THEN conjunct2, THEN conjunct2, THEN conjunct1, THEN mp, OF c1 [unfolded k1]]
  have 8: "RecurrentDPG_critic dpg_scope small_mdp small_spec
         [Placeholder 0 ''s'' [], Placeholder 2 ''s1'' [], Placeholder 4 ''s2'' []]
         [Placeholder 1 ''a'' [], Placeholder 3 ''a1'' [], Placeholder 5 ''a2'' []] None empty_graph
        = (Inr [critic_fn dpg_scope small_mdp small_spec (Placeholder 0 ''s'' []) (Placeholder 1 ''a'' []),
                critic_fn dpg_scope small_mdp small_spec (Placeholder 2 ''s1'' []) (Placeholder 3 ''a1'' []),
                critic_fn dpg_scope small_mdp small_spec (Placeholder 4 ''s2'' []) (Placeholder 5 ''a2'' [])],
           critic_graph)
      \<and> RecurrentDPG_critic dpg_scope small_mdp small_spec
         [Placeholder 0 ''s'' [], Placeholder 2 ''s1'' [], Placeholder 4 ''s2'' []]
         [Placeholder 6 ''e'' [], Placeholder 7 ''e1'' [], Placeholder 8 ''e2'' []] (Some True) critic_graph
        = (Inr [critic_fn dpg_scope small_mdp small_spec (Placeholder 0 ''s'' []) (Placeholder 6 ''e'' []),
                critic_fn dpg_scope small_mdp small_spec (Placeholder 2 ''s1'' []) (Placeholder 7 ''e1'' []),
                critic_fn dpg_scope small_mdp small_spec (Placeholder 4 ''s2'' []) (Placeholder 8 ''e2'' [])],
           critic_graph)
      \<and> critic_model dpg_scope (Placeholder 2 ''s1'' []) (Placeholder 7 ''e1'' []) small_mdp small_spec
           ''critic'' (Some True) None critic_graph
        = (Inr (critic_fn dpg_scope small_mdp small_spec (Placeholder 2 ''s1'' []) (Placeholder 7 ''e1'' [])),
           critic_graph)"
    using u1 by simp
  obtain y2 k2 where c2: "critic_model dpg_scope (Concat 1 [Placeholder 0 ''x'' [], Placeholder 1 ''h'' []])
               (Placeholder 2 ''a'' []) small_mdp small_spec ''critic'' None None empty_graph = (Inr y2, k2)"
    using succeedsD [OF pointer_critic_first_build [THEN conjunct1]] by blast
  then have k2: "k2 = critic_graph"
    using pointer_critic_first_build [THEN conjunct2] by simp
  note u2 = C2 [THEN conjunct2, THEN conjunct2, THEN conjunct2, THEN conjunct2, THEN conjunct2,
              THEN conjunct2, THEN conjunct2, THEN conjunct2, THEN mp, OF c2 [unfolded k2]]
  have 9: "PointerNetDPG_critic dpg_scope small_mdp small_spec
         [Placeholder 0 ''x'' [], Placeholder 3 ''x1'' []]
         [Placeholder 1 ''h'' [], Placeholder 4 ''h1'' []]
         [Placeholder 2 ''a'' [], Placeholder 5 ''a1'' []] None empty_graph
        = (Inr [critic_fn dpg_scope small_mdp small_spec
                  (Concat 1 [Placeholder 0 ''x'' [], Placeholder 1 ''h'' []]) (Placeholder 2 ''a'' []),
                critic_fn dpg_scope small_mdp small_spec
                  (Concat 1 [Placeholder 3 ''x1'' [], Placeholder 4 ''h1'' []]) (Placeholder 5 ''a1'' [])],
           critic_graph)
      \<and> PointerNetDPG_critic dpg_scope small_mdp small_spec
         [Placeholder 0 ''x'' [], Placeholder 3 ''x1'' []]
         [Placeholder 1 ''h'' [], Placeholder 4 ''h1'' []]
         [Placeholder 6 ''e'' [], Placeholder 7 ''e1'' []] (Some True) critic_graph
        = (Inr [critic_fn dpg_scope small_mdp small_spec
                  (Concat 1 [Placeholder 0 ''x'' [], Placeholder 1 ''h'' []]) (Placeholder 6 ''e'' []),
                critic_fn dpg_scope small_mdp small_spec
                  (Concat 1 [Placeholder 3 ''x1'' [], Placeholder 4 ''h1'' []]) (Placeholder 7 ''e1'' [])],
           critic_graph)"
    using u2 by (simp add: pointer_critic_states_def)
  from 1 2 3 4 5 6 7 8 9 show ?thesis by blast
qed

subsection \<open>The two parameter lists\<close>

text \<open>
  Against claim C5 as stated: the two parameter lists of a constructed instance are not
  always disjoint. A pointer network built with batch normalisation of the actions has
  its two batch-normalisation parameters in both lists; a base learner whose name ends in
  \<open>critic\<close> has its policy parameter in both lists, because each list is chosen by a
  substring of the variable's name.
\<close>

theorem C5_parameter_partition_counterexample:
  "map_option pointer_shared_params
     (result_of (PointerNetDPG_init \<lparr>state_dim = 6, action_dim = 1\<rparr> \<lparr>policy_dims = [3], critic_dims = []\<rparr>
        1 1 True None None None None ''dpg'' empty_graph))
   = Some [''dpg/bn/beta:0'', ''dpg/bn/gamma:0'']
   \<and> map_option base_shared_params
     (result_of (DPG_init \<lparr>state_dim = 1, action_dim = 1\<rparr> \<lparr>policy_dims = [], critic_dims = []\<rparr>
        None None None None ''actor_critic'' empty_graph))
   = Some [''actor_critic/policy/W0:0'']"
  by code_simp

text \<open>
  Claim C5, amended. For every constructed instance \<open>policy_params\<close> is the list of all
  variables of the graph whose name contains \<open>policy/\<close> (in the pointer network:
  \<open>encoder/\<close> or \<open>decoder/\<close>) and \<open>critic_params\<close> the list of those whose name contains
  \<open>critic/\<close>, in the pointer network each followed by the two batch-normalisation
  parameters when \<open>bn_actions\<close> is set. A variable created under a scope named \<open>policy\<close>,
  \<open>critic\<close>, \<open>encoder\<close> or \<open>decoder\<close> carries that marker in its name, so it belongs to the
  list of its scope. The two lists share exactly the variables whose name carries the
  markers of both and, in the pointer network, the batch-normalisation parameters: they
  are disjoint when no name carries both markers and batch normalisation is off.
\<close>

theorem C5_parameter_partition:
  "(DPG_init m spec inputs0 q_targets0 tau0 noiser0 nm g = (Inr d, g1) \<longrightarrow>
      policy_params d = filter (sublist ''policy/'') (variables g1)
      \<and> critic_params d = filter (sublist ''critic/'') (variables g1)
      \<and> set (base_shared_params d)
          = {v \<in> set (variables g1). sublist ''policy/'' v \<and> sublist ''critic/'' v})
   \<and> (RecurrentDPG_init lfm m spec idim vsize slen inputs0 q_targets0 tau0 noiser0 nm g = (Inr rd, g2) \<longrightarrow>
      r_policy_params rd = filter (sublist ''policy/'') (variables g2)
      \<and> r_critic_params rd = filter (sublist ''critic/'') (variables g2)
      \<and> set (shared_params (r_policy_params rd) (r_critic_params rd))
          = {v \<in> set (variables g2). sublist ''policy/'' v \<and> sublist ''critic/'' v})
   \<and> (PointerNetDPG_init m spec idim slen bn pinputs0 pq_targets0 tau0 noiser0 nm g = (Inr pd, g3) \<longrightarrow>
      p_policy_params pd
        = filter (\<lambda>v. sublist ''encoder/'' v \<or> sublist ''decoder/'' v) (variables g3) @ bn_names nm bn
      \<and> p_critic_params pd = filter (sublist ''critic/'') (variables g3) @ bn_names nm bn
      \<and> set (pointer_shared_params pd)
          = {v \<in> set (variables g3).
               (sublist ''encoder/'' v \<or> sublist ''decoder/'' v) \<and> sublist ''critic/'' v}
            \<union> set (bn_names nm bn))
   \<and> sublist ''policy/'' (scoped (variable_scope sc ''policy'' r) v @ '':0'')
   \<and> sublist ''critic/'' (scoped (variable_scope sc ''critic'' r) v @ '':0'')
   \<and> sublist ''encoder/'' (scoped (variable_scope sc ''encoder'' r) v @ '':0'')
   \<and> sublist ''decoder/'' (scoped (variable_scope sc ''decoder'' r) v @ '':0'')"
proof (intro conjI impI)
  assume a: "DPG_init m spec inputs0 q_targets0 tau0 noiser0 nm g = (Inr d, g1)"
  note p = DPG_init_params [OF a]
  from p show "policy_params d = filter (sublist ''policy/'') (variables g1)"
    and "critic_params d = filter (sublist ''critic/'') (variables g1)"
    by simp_all
  from p show "set (base_shared_params d)
          = {v \<in> set (variables g1). sublist ''policy/'' v \<and> sublist ''critic/'' v}"
    by (simp add: base_shared_params_def shared_filters)
next
  assume a: "RecurrentDPG_init lfm m spec idim vsize slen inputs0 q_targets0 tau0 noiser0 nm g = (Inr rd, g2)"
  note p = RecurrentDPG_init_params [OF a]
  from p show "r_policy_params rd = filter (sublist ''policy/'') (variables g2)"
    and "r_critic_params rd = filter (sublist ''critic/'') (variables g2)"
    by simp_all
  from p show "set (shared_params (r_policy_params rd) (r_critic_params rd))
          = {v \<in> set (variables g2). sublist ''policy/'' v \<and> sublist ''critic/'' v}"
    by (simp add: shared_filters)
next
  assume a: "PointerNetDPG_init m spec idim slen bn pinputs0 pq_targets0 tau0 noiser0 nm g = (Inr pd, g3)"
  note p = PointerNetDPG_init_params [OF a]
  from p show "p_policy_params pd
        = filter (\<lambda>v. sublist ''encoder/'' v \<or> sublist ''decoder/'' v) (variables g3) @ bn_names nm bn"
    and "p_critic_params pd = filter (sublist ''critic/'') (variables g3) @ bn_names nm bn"
    by simp_all
  from p show "set (pointer_shared_params pd)
          = {v \<in> set (variables g3).
               (sublist ''encoder/'' v \<or> sublist ''decoder/'' v) \<and> sublist ''critic/'' v}
            \<union> set (bn_names nm bn)"
    by (simp add: pointer_shared_params_def shared_filters_append)
next
  show "sublist ''policy/'' (scoped (variable_scope sc ''policy'' r) v @ '':0'')"
    using scope_marker [of "''policy''" sc r v] by simp
  show "sublist ''critic/'' (scoped (variable_scope sc ''critic'' r) v @ '':0'')"
    using scope_marker [of "''critic''" sc r v] by simp
  show "sublist ''encoder/'' (scoped (variable_scope sc ''encoder'' r) v @ '':0'')"
    using scope_marker [of "''encoder''" sc r v] by simp
  show "sublist ''decoder/'' (scoped (variable_scope sc ''decoder'' r) v @ '':0'')"
    using scope_marker [of "''decoder''" sc r v] by simp
qed

theorem C5_parameter_partition_witness:
  "(\<exists>d g1. DPG_init \<lparr>state_dim = 4, action_dim = 2\<rparr> \<lparr>policy_dims = [8, 8], critic_dims = [8, 8]\<rparr>
        None None None None ''dpg'' empty_graph = (Inr d, g1)
      \<and> policy_params d = [''dpg/policy/W0:0'', ''dpg/policy/b0:0'', ''dpg/policy/W1:0'',
                           ''dpg/policy/b1:0'', ''dpg/policy/W2:0'']
      \<and> critic_params d = [''dpg/critic/W0:0'', ''dpg/critic/b0:0'', ''dpg/critic/W1:0'',
                           ''dpg/critic/b1:0'', ''dpg/critic/W2:0'', ''dpg/critic/b2:0'']
      \<and> set (base_shared_params d) = {})
   \<and> (\<exists>rd g2. RecurrentDPG_init (ret (\<lambda>x t. ret x)) \<lparr>state_dim = 3, action_dim = 1\<rparr>
        \<lparr>policy_dims = [3], critic_dims = []\<rparr> 1 1 2 None None None None ''dpg'' empty_graph = (Inr rd, g2)
      \<and> r_policy_params rd = [''dpg/rnn_decoder/PolicyRNNCell/policy/W0:0'',
                              ''dpg/rnn_decoder/PolicyRNNCell/policy/b0:0'',
                              ''dpg/rnn_decoder/PolicyRNNCell/policy/W1:0'',
                              ''dpg/PolicyRNNCell/policy/W0:0'', ''dpg/PolicyRNNCell/policy/b0:0'',
                              ''dpg/PolicyRNNCell/policy/W1:0'']
      \<and> r_critic_params rd = [''dpg/critic/W0:0'', ''dpg/critic/b0:0'']
      \<and> set (shared_params (r_policy_params rd) (r_critic_params rd)) = {})
   \<and> (\<exists>pd g3. PointerNetDPG_init \<lparr>state_dim = 6, action_dim = 1\<rparr>
        \<lparr>policy_dims = [3], critic_dims = []\<rparr> 1 1 True None None None None ''dpg'' empty_graph = (Inr pd, g3)
      \<and> p_policy_params pd = [''dpg/encoder/GRUCell/Gates/Linear/Matrix:0'',
                              ''dpg/encoder/GRUCell/Gates/Linear/Bias:0'',
                              ''dpg/encoder/GRUCell/Candidate/Linear/Matrix:0'',
                              ''dpg/encoder/GRUCell/Candidate/Linear/Bias:0'',
                              ''dpg/decoder/GRUCell/Gates/Linear/Matrix:0'',
                              ''dpg/decoder/GRUCell/Gates/Linear/Bias:0'',
                              ''dpg/decoder/GRUCell/Candidate/Linear/Matrix:0'',
                              ''dpg/decoder/GRUCell/Candidate/Linear/Bias:0'',
                              ''dpg/bn/beta:0'', ''dpg/bn/gamma:0'']
      \<and> p_critic_params pd = [''dpg/critic/W0:0'', ''dpg/critic/b0:0'',
                              ''dpg/bn/beta:0'', ''dpg/bn/gamma:0'']
      \<and> set (pointer_shared_params pd) = {''dpg/bn/beta:0'', ''dpg/bn/gamma:0''})"
proof -
  note C5 = C5_parameter_partition
  obtain d g1 where b: "DPG_init \<lparr>state_dim = 4, action_dim = 2\<rparr> \<lparr>policy_dims = [8, 8], critic_dims = [8, 8]\<rparr>
       None None None None ''dpg'' empty_graph = (Inr d, g1)"
    using succeedsD [OF base_instance] by blast
  from base_tau_variables b have bv:
     "variables g1 = [''dpg/policy/W0:0'', ''dpg/policy/b0:0'', ''dpg/policy/W1:0'',
        ''dpg/policy/b1:0'', ''dpg/policy/W2:0'', ''dpg/critic/W0:0'',
        ''dpg/critic/b0:0'', ''dpg/critic/W1:0'', ''dpg/critic/b1:0'',
        ''dpg/critic/W2:0'', ''dpg/critic/b2:0'', ''dpg/policy_track/W0:0'',
        ''dpg/policy_track/b0:0'', ''dpg/policy_track/W1:0'',
        ''dpg/policy_track/b1:0'', ''dpg/policy_track/W2:0'',
        ''dpg/critic_track/W0:0'', ''dpg/critic_track/b0:0'',
        ''dpg/critic_track/W1:0'', ''dpg/critic_track/b1:0'',
        ''dpg/critic_track/W2:0'', ''dpg/critic_track/b2:0'']"
    by (simp add: tau_and_variables_def)
  have 1: "policy_params d = [''dpg/policy/W0:0'', ''dpg/policy/b0:0'', ''dpg/policy/W1:0'',
                           ''dpg/policy/b1:0'', ''dpg/policy/W2:0'']
      \<and> critic_params d = [''dpg/critic/W0:0'', ''dpg/critic/b0:0'', ''dpg/critic/W1:0'',
                           ''dpg/critic/b1:0'', ''dpg/critic/W2:0'', ''dpg/critic/b2:0'']
      \<and> set (base_shared_params d) = {}"
    using C5 [THEN conjunct1, THEN mp, OF b] unfolding bv
    by (simp add: sublist_code base_shared_params_def shared_params_def)
  obtain rd g2 where ri: "RecurrentDPG_init (ret (\<lambda>x t. ret x)) \<lparr>state_dim = 3, action_dim = 1\<rparr>
        \<lparr>policy_dims = [3], critic_dims = []\<rparr> 1 1 2 None None None None ''dpg'' empty_graph = (Inr rd, g2)"
    using succeedsD [OF recurrent_instance2] by blast
  from recurrent_variables ri have rv:
    "variables g2 = [''dpg/rnn_decoder/GRUCell/Gates/Linear/Matrix:0'',
      ''dpg/rnn_decoder/GRUCell/Gates/Linear/Bias:0'',
      ''dpg/rnn_decoder/GRUCell/Candidate/Linear/Matrix:0'',
      ''dpg/rnn_decoder/GRUCell/Candidate/Linear/Bias:0'',
      ''dpg/rnn_decoder/PolicyRNNCell/policy/W0:0'',
      ''dpg/rnn_decoder/PolicyRNNCell/policy/b0:0'',
      ''dpg/rnn_decoder/PolicyRNNCell/policy/W1:0'', ''dpg/critic/W0:0'',
      ''dpg/critic/b0:0'', ''dpg/GRUCell/Gates/Linear/Matrix:0'',
      ''dpg/GRUCell/Gates/Linear/Bias:0'',
      ''dpg/GRUCell/Candidate/Linear/Matrix:0'',
      ''dpg/GRUCell/Candidate/Linear/Bias:0'',
      ''dpg/PolicyRNNCell/policy/W0:0'', ''dpg/PolicyRNNCell/policy/b0:0'',
      ''dpg/PolicyRNNCell/policy/W1:0'']"
    by simp
  have 2: "r_policy_params rd = [''dpg/rnn_decoder/PolicyRNNCell/policy/W0:0'',
                              ''dpg/rnn_decoder/PolicyRNNCell/policy/b0:0'',
                              ''dpg/rnn_decoder/PolicyRNNCell/policy/W1:0'',
                              ''dpg/PolicyRNNCell/policy/W0:0'', ''dpg/PolicyRNNCell/policy/b0:0'',
                              ''dpg/PolicyRNNCell/policy/W1:0'']
      \<and> r_critic_params rd = [''dpg/critic/W0:0'', ''dpg/critic/b0:0'']
      \<and> set (shared_params (r_policy_params rd) (r_critic_params rd)) = {}"
    using C5 [THEN conjunct2, THEN conjunct1, THEN mp, OF ri] unfolding rv
    by (simp add: sublist_code shared_params_def)
  obtain pd g3 where pi: "PointerNetDPG_init \<lparr>state_dim = 6, action_dim = 1\<rparr>
        \<lparr>policy_dims = [3], critic_dims = []\<rparr> 1 1 True None None None None ''dpg'' empty_graph = (Inr pd, g3)"
    using succeedsD [OF pointer_instance] by blast
  from pointer_variables pi have pv:
    "variables g3 = [''dpg/bn/beta:0'', ''dpg/bn/gamma:0'',
      ''dpg/encoder/GRUCell/Gates/Linear/Matrix:0'',
      ''dpg/encoder/GRUCell/Gates/Linear/Bias:0'',
      ''dpg/encoder/GRUCell/Candidate/Linear/Matrix:0'',
      ''dpg/encoder/GRUCell/Candidate/Linear/Bias:0'',
      ''dpg/decoder/GRUCell/Gates/Linear/Matrix:0'',
      ''dpg/decoder/GRUCell/Gates/Linear/Bias:0'',
      ''dpg/decoder/GRUCell/Candidate/Linear/Matrix:0'',
      ''dpg/decoder/GRUCell/Candidate/Linear/Bias:0'', ''dpg/critic/W0:0'',
      ''dpg/critic/b0:0'']"
    by simp
  have 3: "p_policy_params pd = [''dpg/encoder/GRUCell/Gates/Linear/Matrix:0'',
                              ''dpg/encoder/GRUCell/Gates/Linear/Bias:0'',
                              ''dpg/encoder/GRUCell/Candidate/Linear/Matrix:0'',
                              ''dpg/encoder/GRUCell/Candidate/Linear/Bias:0'',
                              ''dpg/decoder/GRUCell/Gates/Linear/Matrix:0'',
                              ''dpg/decoder/GRUCell/Gates/Linear/Bias:0'',
                              ''dpg/decoder/GRUCell/Candidate/Linear/Matrix:0'',
                              ''dpg/decoder/GRUCell/Candidate/Linear/Bias:0'',
                              ''dpg/bn/beta:0'', ''dpg/bn/gamma:0'']
      \<and> p_critic_params pd = [''dpg/critic/W0:0'', ''dpg/critic/b0:0'',
                              ''dpg/bn/beta:0'', ''dpg/bn/gamma:0'']
      \<and> set (pointer_shared_params pd) = {''dpg/bn/beta:0'', ''dpg/bn/gamma:0''}"
    using C5 [THEN conjunct2, THEN conjunct2, THEN conjunct1, THEN mp, OF pi] unfolding pv
    by (simp add: sublist_code bn_names_def scoped_def variable_scope_def root_scope_def
          pointer_shared_params_def shared_params_def insert_commute)
  from 1 2 3 b ri pi show ?thesis by blast
qed

end
